theory Spec2Isabelle
  imports Complex_Main "HOL-Library.Word"
begin

section \<open>Vectors\<close>

text \<open>
  The reconstruction scripts compute on numpy arrays of three floats. A vector is
  modelled as a triple of reals: the arithmetic of the model is exact, the rounding of
  IEEE doubles is not represented. Division by zero, which numpy answers with
  \<open>nan\<close> or \<open>inf\<close>, is outside the model; the theorems that depend on
  it assume directions different from the zero vector and focal lengths different
  from zero.
\<close>

type_synonym vec3 = "real \<times> real \<times> real"

definition vec_x :: "vec3 \<Rightarrow> real" where
  "vec_x v = fst v"

definition vec_y :: "vec3 \<Rightarrow> real" where
  "vec_y v = fst (snd v)"

definition vec_z :: "vec3 \<Rightarrow> real" where
  "vec_z v = snd (snd v)"

fun vadd :: "vec3 \<Rightarrow> vec3 \<Rightarrow> vec3" where
  "vadd (a1, a2, a3) (b1, b2, b3) = (a1 + b1, a2 + b2, a3 + b3)"

fun vsub :: "vec3 \<Rightarrow> vec3 \<Rightarrow> vec3" where
  "vsub (a1, a2, a3) (b1, b2, b3) = (a1 - b1, a2 - b2, a3 - b3)"

fun smul :: "real \<Rightarrow> vec3 \<Rightarrow> vec3" where
  "smul k (a1, a2, a3) = (k * a1, k * a2, k * a3)"

fun sdiv :: "vec3 \<Rightarrow> real \<Rightarrow> vec3" where
  "sdiv (a1, a2, a3) k = (a1 / k, a2 / k, a3 / k)"

fun np_dot :: "vec3 \<Rightarrow> vec3 \<Rightarrow> real" where
  "np_dot (a1, a2, a3) (b1, b2, b3) = a1 * b1 + a2 * b2 + a3 * b3"

fun linalg_norm :: "vec3 \<Rightarrow> real" where
  "linalg_norm (a1, a2, a3) = sqrt (a1 * a1 + a2 * a2 + a3 * a3)"

section \<open>Triangulation of two rays\<close>

text \<open>
  \<open>StereoVoxelReconstructor.closest_point_between_rays\<close> of
  \<open>camera/stereo_voxel_reconstruction.py\<close>; the method of the same name of
  \<open>CalibratedStereoReconstructor\<close> in
  \<open>camera/calibrated_stereo_reconstruction.py\<close> has the same body. The result
  \<open>(None, None)\<close> is \<open>None\<close>, a pair \<open>(midpoint, distance)\<close> is
  \<open>Some\<close>.
\<close>

definition closest_point_between_rays ::
  "vec3 \<Rightarrow> vec3 \<Rightarrow> vec3 \<Rightarrow> vec3 \<Rightarrow> (vec3 \<times> real) option" where
  "closest_point_between_rays origin1 dir1_arg origin2 dir2_arg =
     (let dir1 = sdiv dir1_arg (linalg_norm dir1_arg);
          dir2 = sdiv dir2_arg (linalg_norm dir2_arg);
          dot = np_dot dir1 dir2
      in if \<bar>dot\<bar> > 0.996 then None
         else
           let w0 = vsub origin1 origin2;
               a = np_dot dir1 dir1;
               b = np_dot dir1 dir2;
               c = np_dot dir2 dir2;
               d = np_dot dir1 w0;
               e = np_dot dir2 w0;
               denom = a * c - b * b
           in if \<bar>denom\<bar> < 1 / 10 ^ 6 then None
              else
                let s = (b * e - c * d) / denom;
                    t = (a * e - b * d) / denom;
                    point1 = vadd origin1 (smul s dir1);
                    point2 = vadd origin2 (smul t dir2);
                    midpoint = sdiv (vadd point1 point2) 2;
                    distance = linalg_norm (vsub point2 point1)
                in Some (midpoint, distance))"

text \<open>
  The local variables of \<open>closest_point_between_rays\<close>, as functions of its
  arguments: the normalised directions, their dot product, the determinant
  \<open>denom\<close> and the two ray parameters \<open>s\<close> (along the first ray) and
  \<open>t\<close> (along the second).
\<close>

definition unit_dir :: "vec3 \<Rightarrow> vec3" where
  "unit_dir v = sdiv v (linalg_norm v)"

definition ray_dot :: "vec3 \<Rightarrow> vec3 \<Rightarrow> real" where
  "ray_dot dir1 dir2 = np_dot (unit_dir dir1) (unit_dir dir2)"

definition ray_denom :: "vec3 \<Rightarrow> vec3 \<Rightarrow> real" where
  "ray_denom dir1 dir2 =
     np_dot (unit_dir dir1) (unit_dir dir1) * np_dot (unit_dir dir2) (unit_dir dir2)
       - ray_dot dir1 dir2 * ray_dot dir1 dir2"

definition ray_s :: "vec3 \<Rightarrow> vec3 \<Rightarrow> vec3 \<Rightarrow> vec3 \<Rightarrow> real" where
  "ray_s origin1 dir1 origin2 dir2 =
     (ray_dot dir1 dir2 * np_dot (unit_dir dir2) (vsub origin1 origin2)
        - np_dot (unit_dir dir2) (unit_dir dir2) * np_dot (unit_dir dir1) (vsub origin1 origin2))
       / ray_denom dir1 dir2"

definition ray_t :: "vec3 \<Rightarrow> vec3 \<Rightarrow> vec3 \<Rightarrow> vec3 \<Rightarrow> real" where
  "ray_t origin1 dir1 origin2 dir2 =
     (np_dot (unit_dir dir1) (unit_dir dir1) * np_dot (unit_dir dir2) (vsub origin1 origin2)
        - ray_dot dir1 dir2 * np_dot (unit_dir dir1) (vsub origin1 origin2))
       / ray_denom dir1 dir2"

text \<open>
  The module-level function \<open>closest_point_between_rays\<close> of
  \<open>camera/stereo_triangulation_calibration.py\<close>: the same computation with a
  guarded normalisation, one combined test for parallel rays, and a test of the two
  ray parameters. It returns \<open>(None, inf)\<close> where it has no solution.
\<close>

definition calib_closest_point_between_rays ::
  "vec3 \<Rightarrow> vec3 \<Rightarrow> vec3 \<Rightarrow> vec3 \<Rightarrow> (vec3 \<times> real) option" where
  "calib_closest_point_between_rays p1 d1_arg p2 d2_arg =
     (let d1 = sdiv d1_arg (linalg_norm d1_arg + 1 / 10 ^ 10);
          d2 = sdiv d2_arg (linalg_norm d2_arg + 1 / 10 ^ 10);
          w = vsub p1 p2;
          a = np_dot d1 d1;
          b = np_dot d1 d2;
          c = np_dot d2 d2;
          d = np_dot d1 w;
          e = np_dot d2 w;
          denom = a * c - b * b
      in if \<bar>denom\<bar> < 1 / 10 ^ 6 \<or> \<bar>b\<bar> > 0.996 then None
         else
           let t = (b * e - c * d) / denom;
               s = (a * e - b * d) / denom
           in if t < 0 \<or> s < 0 then None
              else
                let point1 = vadd p1 (smul t d1);
                    point2 = vadd p2 (smul s d2);
                    point_3d = sdiv (vadd point1 point2) 2;
                    distance = linalg_norm (vsub point1 point2)
                in Some (point_3d, distance))"

section \<open>The stereo reconstructor\<close>

text \<open>
  Python exceptions that the modelled code can raise. \<open>Cv2Error\<close> stands for
  the \<open>cv2.error\<close> of \<open>cv2.absdiff\<close> on arrays of different sizes,
  \<open>ValueError\<close> for numpy's refusal to combine arrays of different shapes.
\<close>

datatype py_error = ZeroDivisionError | Cv2Error | ValueError

text \<open>
  A grayscale frame is a two-dimensional array of unsigned bytes, stored as the list
  of its rows; \<open>img ! y ! x\<close> is \<open>img[y, x]\<close>. A voxel grid is a
  three-dimensional array of floats; it is modelled by the function from index
  triples to cell values, and the theorems on bounds say which triples the code
  touches.
\<close>

type_synonym image = "8 word list list"

type_synonym voxel_index = "int \<times> int \<times> int"

type_synonym grid = "voxel_index \<Rightarrow> real"

text \<open>
  The attributes of \<open>StereoVoxelReconstructor\<close> that the modelled methods read
  or write. \<open>voxel_bounds\<close> is the dictionary with the keys \<open>'x'\<close>,
  \<open>'y'\<close> and \<open>'z'\<close>, one field for each key.
\<close>

record reconstructor =
  fx :: real
  fy :: real
  cx :: real
  cy :: real
  k1 :: real
  cam_left_pos :: vec3
  cam_right_pos :: vec3
  voxel_size :: real
  voxel_grid_size :: "int \<times> int \<times> int"
  voxel_bounds_x :: "real \<times> real"
  voxel_bounds_y :: "real \<times> real"
  voxel_bounds_z :: "real \<times> real"
  voxels :: grid
  motion_threshold :: int
  min_pixel_intensity :: int
  max_triangulation_error :: real
  voxel_count :: nat

text \<open>The values \<open>__init__\<close> assigns.\<close>

definition init_reconstructor :: reconstructor where
  "init_reconstructor =
     \<lparr> fx = 748, fy = 748, cx = 960, cy = 540, k1 = - 0.15,
       cam_left_pos = (0, 0, 0), cam_right_pos = (0.5, 0, 0),
       voxel_size = 0.01, voxel_grid_size = (100, 100, 100),
       voxel_bounds_x = (- 0.25, 0.75), voxel_bounds_y = (- 0.5, 0.5),
       voxel_bounds_z = (0, 1),
       voxels = (\<lambda>_. 0),
       motion_threshold = 30, min_pixel_intensity = 100,
       max_triangulation_error = 0.10,
       voxel_count = 0 \<rparr>"

text \<open>\<open>StereoVoxelReconstructor.get_ray_direction\<close>.\<close>

definition get_ray_direction :: "reconstructor \<Rightarrow> real \<Rightarrow> real \<Rightarrow> vec3" where
  "get_ray_direction self pixel_x pixel_y =
     (let norm_x = (pixel_x - cx self) / fx self;
          norm_y = (pixel_y - cy self) / fy self;
          r = sqrt (norm_x ^ 2 + norm_y ^ 2);
          (norm_x, norm_y) =
            (if r > 0 then
               let theta = arctan r;
                   theta_distorted = theta * (1 + k1 self * theta ^ 2);
                   scale = theta_distorted / r
               in (norm_x * scale, norm_y * scale)
             else (norm_x, norm_y));
          ray = (norm_x, norm_y, 1)
      in sdiv ray (linalg_norm ray))"

text \<open>\<open>StereoVoxelReconstructor.triangulate_pixel_pair\<close>.\<close>

definition triangulate_pixel_pair ::
  "reconstructor \<Rightarrow> real \<Rightarrow> real \<Rightarrow> real \<Rightarrow> real \<Rightarrow> (vec3 \<times> real) option" where
  "triangulate_pixel_pair self px_left py_left px_right py_right =
     (let ray_left = get_ray_direction self px_left py_left;
          ray_right = get_ray_direction self px_right py_right
      in case closest_point_between_rays (cam_left_pos self) ray_left
                (cam_right_pos self) ray_right of
           None \<Rightarrow> None
         | Some (point_3d, error) \<Rightarrow>
             if error > max_triangulation_error self then None
             else if vec_z point_3d < 0 then None
             else if vec_z point_3d > 2.0 then None
             else Some (point_3d, error))"

text \<open>
  Python's \<open>int\<close> of a float truncates towards zero.
\<close>

definition py_int :: "real \<Rightarrow> int" where
  "py_int v = (if 0 \<le> v then \<lfloor>v\<rfloor> else \<lceil>v\<rceil>)"

text \<open>\<open>StereoVoxelReconstructor.world_to_voxel\<close>.\<close>

definition world_to_voxel :: "reconstructor \<Rightarrow> vec3 \<Rightarrow> voxel_index option" where
  "world_to_voxel self world_pos =
     (let (x, y, z) = world_pos
      in if \<not> (fst (voxel_bounds_x self) \<le> x \<and> x < snd (voxel_bounds_x self)) then None
         else if \<not> (fst (voxel_bounds_y self) \<le> y \<and> y < snd (voxel_bounds_y self)) then None
         else if \<not> (fst (voxel_bounds_z self) \<le> z \<and> z < snd (voxel_bounds_z self)) then None
         else
           let vx = py_int ((x - fst (voxel_bounds_x self)) / voxel_size self);
               vy = py_int ((y - fst (voxel_bounds_y self)) / voxel_size self);
               vz = py_int ((z - fst (voxel_bounds_z self)) / voxel_size self);
               vx = max 0 (min vx (fst (voxel_grid_size self) - 1));
               vy = max 0 (min vy (fst (snd (voxel_grid_size self)) - 1));
               vz = max 0 (min vz (snd (snd (voxel_grid_size self)) - 1))
           in Some (vx, vy, vz))"

text \<open>
  \<open>StereoVoxelReconstructor.accumulate_voxel\<close>: the updated object and the
  returned flag.
\<close>

definition accumulate_voxel :: "reconstructor \<Rightarrow> vec3 \<Rightarrow> real \<Rightarrow> reconstructor \<times> bool" where
  "accumulate_voxel self world_pos confidence =
     (case world_to_voxel self world_pos of
        None \<Rightarrow> (self, False)
      | Some voxel_idx \<Rightarrow>
          (self\<lparr> voxels := (voxels self)(voxel_idx := voxels self voxel_idx + confidence),
                 voxel_count := voxel_count self + 1 \<rparr>, True))"

text \<open>
  \<open>cv2.absdiff\<close> on unsigned bytes: the absolute difference, which always fits
  a byte.
\<close>

definition absdiff :: "8 word \<Rightarrow> 8 word \<Rightarrow> 8 word" where
  "absdiff p q = (if q \<le> p then p - q else q - p)"

text \<open>
  The slice \<open>pixels[::step]\<close> for a positive step: \<open>slice_step step k\<close>
  skips \<open>k\<close> elements, keeps one, and goes on with \<open>step - 1\<close> to skip.
\<close>

fun slice_step :: "nat \<Rightarrow> nat \<Rightarrow> 'a list \<Rightarrow> 'a list" where
  "slice_step step k [] = []"
| "slice_step step k (p # ps) =
     (if k = 0 then p # slice_step step (step - 1) ps else slice_step step (k - 1) ps)"

text \<open>
  The pixels selected by \<open>np.where(combined_mask)\<close>, in row-major order, zipped
  with their intensities: the list \<open>pixels\<close> of \<open>detect_motion_pixels\<close>
  before sampling.
\<close>

definition combined_pixels :: "reconstructor \<Rightarrow> image \<Rightarrow> image \<Rightarrow> (nat \<times> nat \<times> 8 word) list" where
  "combined_pixels self current previous =
     concat (map (\<lambda>y. concat (map (\<lambda>x.
         if int (unat (absdiff (current ! y ! x) (previous ! y ! x))) > motion_threshold self
            \<and> int (unat (current ! y ! x)) > min_pixel_intensity self
         then [(x, y, current ! y ! x)] else [])
       [0..<length (current ! y)])) [0..<length current])"

text \<open>
  \<open>StereoVoxelReconstructor.detect_motion_pixels\<close>. \<open>previous\<close> is
  \<open>None\<close> on the first frame. \<open>max_pixels\<close> is a count (the only caller
  leaves it at its default, 100); with \<open>max_pixels = 0\<close> the floor division
  raises.
\<close>

definition detect_motion_pixels ::
  "reconstructor \<Rightarrow> image \<Rightarrow> image option \<Rightarrow> nat \<Rightarrow> py_error + (nat \<times> nat \<times> 8 word) list" where
  "detect_motion_pixels self current previous max_pixels =
     (case previous of
        None \<Rightarrow> Inr []
      | Some prev \<Rightarrow>
          if map length current \<noteq> map length prev then Inl Cv2Error
          else
            let pixels = combined_pixels self current prev
            in if length pixels = 0 then Inr []
               else if length pixels > max_pixels then
                 (if max_pixels = 0 then Inl ZeroDivisionError
                  else
                    let step = length pixels div max_pixels
                    in Inr (take max_pixels (slice_step step 0 pixels)))
               else Inr pixels)"

section \<open>The calibrated stereo reconstructor\<close>

text \<open>
  A 3x3 matrix is the triple of its rows; \<open>matvec\<close> is numpy's \<open>R @ v\<close>.
\<close>

type_synonym mat3 = "vec3 \<times> vec3 \<times> vec3"

fun matvec :: "mat3 \<Rightarrow> vec3 \<Rightarrow> vec3" where
  "matvec (r1, r2, r3) v = (np_dot r1 v, np_dot r2 v, np_dot r3 v)"

text \<open>
  The attributes of \<open>CalibratedStereoReconstructor\<close> that its triangulation
  reads; they come from the calibration file. The two camera positions and the error
  bound carry the prefix \<open>cal\<close> here, the class names them as
  \<open>StereoVoxelReconstructor\<close> does.
\<close>

record calibrated_reconstructor =
  fx_left :: real
  fy_left :: real
  cx_left :: real
  cy_left :: real
  k1_left :: real
  fx_right :: real
  fy_right :: real
  cx_right :: real
  cy_right :: real
  k1_right :: real
  R_right :: mat3
  cal_cam_left_pos :: vec3
  cal_cam_right_pos :: vec3
  cal_max_triangulation_error :: real

text \<open>\<open>CalibratedStereoReconstructor.get_ray_direction\<close>.\<close>

definition cal_get_ray_direction ::
  "real \<Rightarrow> real \<Rightarrow> real \<Rightarrow> real \<Rightarrow> real \<Rightarrow> real \<Rightarrow> real \<Rightarrow> vec3" where
  "cal_get_ray_direction pixel_x pixel_y f_x f_y c_x c_y k_1 =
     (let norm_x = (pixel_x - c_x) / f_x;
          norm_y = (pixel_y - c_y) / f_y;
          r = sqrt (norm_x ^ 2 + norm_y ^ 2);
          (norm_x, norm_y) =
            (if r > 0 then
               let theta = arctan r;
                   theta_distorted = theta * (1 + k_1 * theta ^ 2);
                   scale = theta_distorted / r
               in (norm_x * scale, norm_y * scale)
             else (norm_x, norm_y));
          ray = (norm_x, norm_y, 1)
      in sdiv ray (linalg_norm ray))"

definition get_left_ray :: "calibrated_reconstructor \<Rightarrow> real \<Rightarrow> real \<Rightarrow> vec3" where
  "get_left_ray self pixel_x pixel_y =
     cal_get_ray_direction pixel_x pixel_y
       (fx_left self) (fy_left self) (cx_left self) (cy_left self) (k1_left self)"

definition get_right_ray :: "calibrated_reconstructor \<Rightarrow> real \<Rightarrow> real \<Rightarrow> vec3" where
  "get_right_ray self pixel_x pixel_y =
     (let ray_right_cam = cal_get_ray_direction pixel_x pixel_y
            (fx_right self) (fy_right self) (cx_right self) (cy_right self) (k1_right self);
          ray_world = matvec (R_right self) ray_right_cam
      in sdiv ray_world (linalg_norm ray_world))"

text \<open>
  \<open>CalibratedStereoReconstructor.triangulate_pixel_pair\<close>; the counter of
  attempts it increments is left out.
\<close>

definition cal_triangulate_pixel_pair ::
  "calibrated_reconstructor \<Rightarrow> real \<Rightarrow> real \<Rightarrow> real \<Rightarrow> real \<Rightarrow> (vec3 \<times> real) option" where
  "cal_triangulate_pixel_pair self px_left py_left px_right py_right =
     (let ray_left = get_left_ray self px_left py_left;
          ray_right = get_right_ray self px_right py_right
      in case closest_point_between_rays (cal_cam_left_pos self) ray_left
                (cal_cam_right_pos self) ray_right of
           None \<Rightarrow> None
         | Some (point_3d, error) \<Rightarrow>
             if error > cal_max_triangulation_error self then None
             else if vec_z point_3d < 0 then None
             else if vec_z point_3d > 2.0 then None
             else Some (point_3d, error))"

section \<open>The calibration loader\<close>

text \<open>
  \<open>CameraCalibration\<close> of \<open>camera/calibration_loader.py\<close>. Its
  \<open>undistort_point\<close> hands the pixel to OpenCV's \<open>undistortPoints\<close>
  with the camera matrix and the distortion coefficients of the object; that routine
  is not part of the repository and is a field of the record here.
\<close>

record camera_calibration =
  camera_matrix :: mat3
  cv2_undistortPoints :: "real \<Rightarrow> real \<Rightarrow> real \<times> real"

definition undistort_point :: "camera_calibration \<Rightarrow> real \<Rightarrow> real \<Rightarrow> real \<times> real" where
  "undistort_point self pixel_x pixel_y = cv2_undistortPoints self pixel_x pixel_y"

definition pixel_to_normalized_coords :: "camera_calibration \<Rightarrow> real \<Rightarrow> real \<Rightarrow> real \<times> real" where
  "pixel_to_normalized_coords self pixel_x pixel_y =
     (let (undist_x, undist_y) = undistort_point self pixel_x pixel_y;
          f_x = vec_x (fst (camera_matrix self));
          f_y = vec_y (fst (snd (camera_matrix self)));
          c_x = vec_z (fst (camera_matrix self));
          c_y = vec_z (fst (snd (camera_matrix self)));
          norm_x = (undist_x - c_x) / f_x;
          norm_y = (undist_y - c_y) / f_y
      in (norm_x, norm_y))"

text \<open>\<open>CameraCalibration.get_ray_direction\<close>.\<close>

definition calib_get_ray_direction :: "camera_calibration \<Rightarrow> real \<Rightarrow> real \<Rightarrow> vec3" where
  "calib_get_ray_direction self pixel_x pixel_y =
     (let (norm_x, norm_y) = pixel_to_normalized_coords self pixel_x pixel_y;
          ray = (norm_x, norm_y, 1)
      in sdiv ray (linalg_norm ray))"

section \<open>Ray traversal and the frame cycle\<close>

text \<open>
  \<open>camera/improved_ray_traversal.py\<close>. An element of the list that
  \<open>traverse_ray_3d\<close> returns is \<open>(vox_z, vox_y, vox_x, weighted_intensity)\<close>.
\<close>

type_synonym ray_voxel = "int \<times> int \<times> int \<times> real"

definition CAMERA_LEFT_POS :: vec3 where
  "CAMERA_LEFT_POS = (0, 0, 0)"

definition CAMERA_RIGHT_POS :: vec3 where
  "CAMERA_RIGHT_POS = (0.5, 0, 0)"

text \<open>
  The body of the loop of \<open>traverse_ray_3d\<close> for the step \<open>i\<close>, on the
  pair of \<open>voxel_list\<close> and \<open>visited\<close>; a \<open>continue\<close> returns the
  pair as it is.
\<close>

definition traverse_body ::
  "vec3 \<Rightarrow> vec3 \<Rightarrow> int \<Rightarrow> real \<Rightarrow> real \<Rightarrow> real \<Rightarrow>
     ray_voxel list \<times> voxel_index set \<Rightarrow> nat \<Rightarrow> ray_voxel list \<times> voxel_index set" where
  "traverse_body camera_pos ray_dir grid_size voxel_len step_size intensity state i =
     (let (voxel_list, visited) = state;
          t = real i * step_size;
          point_3d = vadd camera_pos (smul t ray_dir)
      in if vec_y point_3d < 0 then state
         else
           let vox_x = py_int ((vec_x point_3d + 0.25) / voxel_len);
               vox_y = py_int (vec_y point_3d / voxel_len);
               vox_z = py_int (vec_z point_3d / voxel_len)
           in if \<not> (0 \<le> vox_x \<and> vox_x < grid_size \<and>
                    0 \<le> vox_y \<and> vox_y < grid_size \<and>
                    0 \<le> vox_z \<and> vox_z < grid_size) then state
              else
                let voxel_key = (vox_z, vox_y, vox_x)
                in if voxel_key \<in> visited then state
                   else
                     let distance = linalg_norm (vsub point_3d camera_pos);
                         falloff = 1 / (1 + distance * 0.2);
                         weighted_intensity = intensity * falloff
                     in (voxel_list @ [(vox_z, vox_y, vox_x, weighted_intensity)],
                         insert voxel_key visited))"

text \<open>
  \<open>traverse_ray_3d\<close>. Its arguments are Python floats, so a step size of zero
  raises at the division that computes \<open>num_steps\<close>; \<open>range\<close> of a
  negative number is empty.
\<close>

definition traverse_ray_3d ::
  "vec3 \<Rightarrow> vec3 \<Rightarrow> int \<Rightarrow> real \<Rightarrow> real \<Rightarrow> real \<Rightarrow> py_error + ray_voxel list" where
  "traverse_ray_3d camera_pos ray_dir grid_size voxel_len max_distance intensity =
     (let step_size = voxel_len * 0.5
      in if step_size = 0 then Inl ZeroDivisionError
         else
           let num_steps = py_int (max_distance / step_size)
           in Inr (fst (foldl
                (traverse_body camera_pos ray_dir grid_size voxel_len step_size intensity)
                ([], {}) [0..<nat num_steps])))"

text \<open>
  The loop of \<open>main\<close>, one iteration of which is a frame cycle. Its variables
  that live across iterations are the grid, the per-camera hit flags
  \<open>camera_hits[z, y, x, camera]\<close> and the two previous frames.
\<close>

type_synonym hits = "voxel_index \<times> nat \<Rightarrow> bool"

record cycle_state =
  voxel_grid :: grid
  camera_hits :: hits
  prev_left :: image
  prev_right :: image

text \<open>
  \<open>np.argwhere(diff > motion_threshold)\<close> for
  \<open>diff = np.abs(img.astype(np.int16) - prev.astype(np.int16))\<close>: the
  coordinates \<open>(py, px)\<close> in row-major order. The difference of two bytes fits
  16 bits, it is computed on integers here.
\<close>

definition motion_coords :: "image \<Rightarrow> image \<Rightarrow> real \<Rightarrow> (nat \<times> nat) list" where
  "motion_coords img prev threshold =
     concat (map (\<lambda>py. concat (map (\<lambda>px.
         if real_of_int \<bar>int (unat (img ! py ! px)) - int (unat (prev ! py ! px))\<bar> > threshold
         then [(py, px)] else [])
       [0..<length (img ! py)])) [0..<length img])"

text \<open>The ray of a pixel when no calibration was loaded.\<close>

definition simple_upward_ray :: "nat \<Rightarrow> nat \<Rightarrow> vec3" where
  "simple_upward_ray px py =
     (let norm_x = (real px - 960) / 755;
          norm_y = (real py - 540) / 752;
          ray_dir = (norm_x, 1, norm_y)
      in sdiv ray_dir (linalg_norm ray_dir))"

definition pixel_ray :: "camera_calibration option \<Rightarrow> nat \<Rightarrow> nat \<Rightarrow> vec3" where
  "pixel_ray calib px py =
     (case calib of
        Some c \<Rightarrow> calib_get_ray_direction c (real px) (real py)
      | None \<Rightarrow> simple_upward_ray px py)"

text \<open>
  The loop over \<open>voxels_on_ray\<close> for the camera with index \<open>cam\<close>: every
  voxel of the ray gains a tenth of its weighted intensity and is marked as hit.
\<close>

fun accumulate_ray :: "nat \<Rightarrow> grid \<times> hits \<Rightarrow> ray_voxel list \<Rightarrow> grid \<times> hits" where
  "accumulate_ray cam acc [] = acc"
| "accumulate_ray cam (vg, ch) ((vox_z, vox_y, vox_x, weighted_int) # rest) =
     accumulate_ray cam
       (vg((vox_z, vox_y, vox_x) := vg (vox_z, vox_y, vox_x) + weighted_int * 0.1),
        ch(((vox_z, vox_y, vox_x), cam) := True))
       rest"

text \<open>
  The loop over the motion coordinates of one camera. The two scripts that have it
  differ in the call of the traversal only, which is the argument \<open>traverse\<close>
  here (from ray direction and pixel intensity to the voxels of the ray).
\<close>

fun process_camera ::
  "nat \<Rightarrow> (vec3 \<Rightarrow> real \<Rightarrow> py_error + ray_voxel list) \<Rightarrow> camera_calibration option \<Rightarrow> image \<Rightarrow>
     grid \<times> hits \<Rightarrow> (nat \<times> nat) list \<Rightarrow> py_error + grid \<times> hits" where
  "process_camera cam traverse calib img acc [] = Inr acc"
| "process_camera cam traverse calib img acc ((py, px) # rest) =
     (let pixel_intensity = real (unat (img ! py ! px)) / 255
      in if pixel_intensity < 0.3 then process_camera cam traverse calib img acc rest
         else
           let ray_dir = pixel_ray calib px py
           in case traverse ray_dir pixel_intensity of
                Inl err \<Rightarrow> Inl err
              | Inr voxels_on_ray \<Rightarrow>
                  process_camera cam traverse calib img
                    (accumulate_ray cam acc voxels_on_ray) rest)"

text \<open>
  \<open>voxel_grid[both_cameras] *= boost\<close> and \<open>voxel_grid *= decay\<close>. The
  arrays of the scripts hold 32-bit floats, whose products are rounded; the products
  here are exact.
\<close>

definition boost_cells :: "hits \<Rightarrow> real \<Rightarrow> grid \<Rightarrow> grid" where
  "boost_cells ch boost vg =
     (\<lambda>v. if ch (v, 0) \<and> ch (v, 1) then vg v * boost else vg v)"

definition decay_grid :: "real \<Rightarrow> grid \<Rightarrow> grid" where
  "decay_grid decay vg = (\<lambda>v. vg v * decay)"

text \<open>
  One iteration of the loop of \<open>main\<close> after a successful capture. The frames
  of a session have one shape; frames of another shape than the previous ones are an
  error of the model. The printing of significant voxels and the status line do not
  change the state and are left out.
\<close>

definition frame_cycle ::
  "camera_calibration option \<Rightarrow> cycle_state \<Rightarrow> image \<Rightarrow> image \<Rightarrow> py_error + cycle_state" where
  "frame_cycle calib st img_left img_right =
     (if map length img_left \<noteq> map length (prev_left st)
         \<or> map length img_right \<noteq> map length (prev_right st) then Inl ValueError
      else
        let motion_coords_left = motion_coords img_left (prev_left st) 25;
            motion_coords_right = motion_coords img_right (prev_right st) 25;
            ch0 = (\<lambda>_. False)
        in case process_camera 0
                  (\<lambda>ray_dir pixel_intensity.
                     traverse_ray_3d CAMERA_LEFT_POS ray_dir 64 0.01 0.8 pixel_intensity)
                  calib img_left (voxel_grid st, ch0) motion_coords_left of
             Inl err \<Rightarrow> Inl err
           | Inr acc_left \<Rightarrow>
               (case process_camera 1
                  (\<lambda>ray_dir pixel_intensity.
                     traverse_ray_3d CAMERA_RIGHT_POS ray_dir 64 0.01 0.8 pixel_intensity)
                  calib img_right acc_left motion_coords_right of
                  Inl err \<Rightarrow> Inl err
                | Inr (vg, ch) \<Rightarrow>
                    Inr \<lparr> voxel_grid = decay_grid 0.99 (boost_cells ch 1.5 vg),
                          camera_hits = ch,
                          prev_left = img_left, prev_right = img_right \<rparr>))"

text \<open>
  The state before the first cycle (the grid and the hit flags from
  \<open>np.zeros\<close>, the baseline frames) and the loop over the captured frame
  pairs; a capture that failed, \<open>None\<close>, is skipped.
\<close>

definition initial_state :: "image \<Rightarrow> image \<Rightarrow> cycle_state" where
  "initial_state first_left first_right =
     \<lparr> voxel_grid = (\<lambda>_. 0), camera_hits = (\<lambda>_. False),
       prev_left = first_left, prev_right = first_right \<rparr>"

fun main_loop ::
  "camera_calibration option \<Rightarrow> cycle_state \<Rightarrow> (image \<times> image) option list \<Rightarrow>
     py_error + cycle_state" where
  "main_loop calib st [] = Inr st"
| "main_loop calib st (None # frames) = main_loop calib st frames"
| "main_loop calib st (Some (img_left, img_right) # frames) =
     (case frame_cycle calib st img_left img_right of
        Inl err \<Rightarrow> Inl err
      | Inr st' \<Rightarrow> main_loop calib st' frames)"

section \<open>The configurable reconstruction\<close>

text \<open>
  \<open>camera/configurable_reconstruction.py\<close> is the same loop with its constants
  read from the configuration. The fields of \<open>SystemConfig\<close> that the loop reads:
  of \<open>voxel_grid\<close> the size, the voxel size and the lower bounds, of
  \<open>reconstruction\<close> the motion threshold, the ray parameters, the decay and the
  boost, and the positions of the cameras with the ids \<open>left\<close> and
  \<open>right\<close>.
\<close>

record system_config =
  cfg_size :: int
  cfg_voxel_size_meters :: real
  cfg_x_min :: real
  cfg_y_min :: real
  cfg_z_min :: real
  cfg_motion_threshold :: real
  cfg_max_ray_distance_meters :: real
  cfg_ray_step_size_ratio :: real
  cfg_temporal_decay :: real
  cfg_multi_camera_boost :: real
  cfg_distance_falloff_factor :: real
  cfg_left_position :: vec3
  cfg_right_position :: vec3

definition cfg_traverse_body ::
  "vec3 \<Rightarrow> vec3 \<Rightarrow> system_config \<Rightarrow> real \<Rightarrow> real \<Rightarrow>
     ray_voxel list \<times> voxel_index set \<Rightarrow> nat \<Rightarrow> ray_voxel list \<times> voxel_index set" where
  "cfg_traverse_body camera_pos ray_dir config step_size intensity state i =
     (let (voxel_list, visited) = state;
          grid_size = cfg_size config;
          voxel_len = cfg_voxel_size_meters config;
          falloff_factor = cfg_distance_falloff_factor config;
          t = real i * step_size;
          point_3d = vadd camera_pos (smul t ray_dir)
      in if vec_y point_3d < 0 then state
         else
           let vox_x = py_int ((vec_x point_3d - cfg_x_min config) / voxel_len);
               vox_y = py_int ((vec_y point_3d - cfg_y_min config) / voxel_len);
               vox_z = py_int ((vec_z point_3d - cfg_z_min config) / voxel_len)
           in if \<not> (0 \<le> vox_x \<and> vox_x < grid_size \<and>
                    0 \<le> vox_y \<and> vox_y < grid_size \<and>
                    0 \<le> vox_z \<and> vox_z < grid_size) then state
              else
                let voxel_key = (vox_z, vox_y, vox_x)
                in if voxel_key \<in> visited then state
                   else
                     let distance = linalg_norm (vsub point_3d camera_pos);
                         falloff = 1 / (1 + distance * falloff_factor);
                         weighted_intensity = intensity * falloff
                     in (voxel_list @ [(vox_z, vox_y, vox_x, weighted_intensity)],
                         insert voxel_key visited))"

definition cfg_traverse_ray_3d ::
  "vec3 \<Rightarrow> vec3 \<Rightarrow> system_config \<Rightarrow> real \<Rightarrow> py_error + ray_voxel list" where
  "cfg_traverse_ray_3d camera_pos ray_dir config intensity =
     (let voxel_len = cfg_voxel_size_meters config;
          max_distance = cfg_max_ray_distance_meters config;
          step_ratio = cfg_ray_step_size_ratio config;
          step_size = voxel_len * step_ratio
      in if step_size = 0 then Inl ZeroDivisionError
         else
           let num_steps = py_int (max_distance / step_size)
           in Inr (fst (foldl
                (cfg_traverse_body camera_pos ray_dir config step_size intensity)
                ([], {}) [0..<nat num_steps])))"

text \<open>
  One iteration of the loop of its \<open>main\<close>; \<open>left_calib\<close> and
  \<open>right_calib\<close> are the entries of the dictionary \<open>calibrations\<close>.
\<close>

definition cfg_frame_cycle ::
  "system_config \<Rightarrow> camera_calibration option \<Rightarrow> camera_calibration option \<Rightarrow>
     cycle_state \<Rightarrow> image \<Rightarrow> image \<Rightarrow> py_error + cycle_state" where
  "cfg_frame_cycle config left_calib right_calib st img_left img_right =
     (if map length img_left \<noteq> map length (prev_left st)
         \<or> map length img_right \<noteq> map length (prev_right st) then Inl ValueError
      else
        let threshold = cfg_motion_threshold config;
            motion_coords_left = motion_coords img_left (prev_left st) threshold;
            motion_coords_right = motion_coords img_right (prev_right st) threshold;
            ch0 = (\<lambda>_. False)
        in case process_camera 0
                  (\<lambda>ray_dir pixel_intensity.
                     cfg_traverse_ray_3d (cfg_left_position config) ray_dir config pixel_intensity)
                  left_calib img_left (voxel_grid st, ch0) motion_coords_left of
             Inl err \<Rightarrow> Inl err
           | Inr acc_left \<Rightarrow>
               (case process_camera 1
                  (\<lambda>ray_dir pixel_intensity.
                     cfg_traverse_ray_3d (cfg_right_position config) ray_dir config pixel_intensity)
                  right_calib img_right acc_left motion_coords_right of
                  Inl err \<Rightarrow> Inl err
                | Inr (vg, ch) \<Rightarrow>
                    Inr \<lparr> voxel_grid = decay_grid (cfg_temporal_decay config)
                            (boost_cells ch (cfg_multi_camera_boost config) vg),
                          camera_hits = ch,
                          prev_left = img_left, prev_right = img_right \<rparr>))"

text \<open>
  What one camera contributes in a cycle, without the grid: the voxels of the rays of
  all its motion pixels that are bright enough, in the order of the loop.
\<close>

fun camera_entries ::
  "(vec3 \<Rightarrow> real \<Rightarrow> py_error + ray_voxel list) \<Rightarrow> camera_calibration option \<Rightarrow> image \<Rightarrow>
     (nat \<times> nat) list \<Rightarrow> py_error + ray_voxel list" where
  "camera_entries traverse calib img [] = Inr []"
| "camera_entries traverse calib img ((py, px) # rest) =
     (if real (unat (img ! py ! px)) / 255 < 0.3 then camera_entries traverse calib img rest
      else
        case traverse (pixel_ray calib px py) (real (unat (img ! py ! px)) / 255) of
          Inl err \<Rightarrow> Inl err
        | Inr voxels_on_ray \<Rightarrow>
            (case camera_entries traverse calib img rest of
               Inl err \<Rightarrow> Inl err
             | Inr others \<Rightarrow> Inr (voxels_on_ray @ others)))"

text \<open>
  The sum of the amounts that a list of ray voxels adds to the cell \<open>v\<close>, and the
  cells that the list names.
\<close>

fun contributions :: "ray_voxel list \<Rightarrow> voxel_index \<Rightarrow> real" where
  "contributions [] v = 0"
| "contributions ((vox_z, vox_y, vox_x, weighted_int) # rest) v =
     (if v = (vox_z, vox_y, vox_x) then weighted_int * 0.1 else 0) + contributions rest v"

definition seen_cells :: "ray_voxel list \<Rightarrow> voxel_index set" where
  "seen_cells entries = (\<lambda>(vox_z, vox_y, vox_x, weighted_int). (vox_z, vox_y, vox_x)) ` set entries"

definition grid_nonneg :: "grid \<Rightarrow> bool" where
  "grid_nonneg vg = (\<forall>v. 0 \<le> vg v)"

text \<open>
  The contributions of one camera in a cycle of \<open>improved_ray_traversal.py\<close>
  and of \<open>configurable_reconstruction.py\<close>, from the position of the camera, its
  calibration, its frame and its previous frame.
\<close>

definition ray_entries ::
  "vec3 \<Rightarrow> camera_calibration option \<Rightarrow> image \<Rightarrow> image \<Rightarrow> py_error + ray_voxel list" where
  "ray_entries camera_pos calib img prev =
     camera_entries
       (\<lambda>ray_dir pixel_intensity. traverse_ray_3d camera_pos ray_dir 64 0.01 0.8 pixel_intensity)
       calib img (motion_coords img prev 25)"

definition cfg_ray_entries ::
  "system_config \<Rightarrow> vec3 \<Rightarrow> camera_calibration option \<Rightarrow> image \<Rightarrow> image \<Rightarrow>
     py_error + ray_voxel list" where
  "cfg_ray_entries config camera_pos calib img prev =
     camera_entries
       (\<lambda>ray_dir pixel_intensity. cfg_traverse_ray_3d camera_pos ray_dir config pixel_intensity)
       calib img (motion_coords img prev (cfg_motion_threshold config))"

text \<open>
  The cells of a grid of the given dimensions, and the world-space box of the stereo
  reconstructor: the bounds that the claims on safety speak of.
\<close>

definition in_grid :: "int \<times> int \<times> int \<Rightarrow> voxel_index \<Rightarrow> bool" where
  "in_grid dims idx =
     (case (dims, idx) of ((n1, n2, n3), (i1, i2, i3)) \<Rightarrow>
        0 \<le> i1 \<and> i1 < n1 \<and> 0 \<le> i2 \<and> i2 < n2 \<and> 0 \<le> i3 \<and> i3 < n3)"

definition in_box :: "reconstructor \<Rightarrow> vec3 \<Rightarrow> bool" where
  "in_box self world_pos =
     (case world_pos of (x, y, z) \<Rightarrow>
        fst (voxel_bounds_x self) \<le> x \<and> x < snd (voxel_bounds_x self) \<and>
        fst (voxel_bounds_y self) \<le> y \<and> y < snd (voxel_bounds_y self) \<and>
        fst (voxel_bounds_z self) \<le> z \<and> z < snd (voxel_bounds_z self))"

text \<open>
  The voxel of the sample \<open>i\<close> of a ray, as the loop of \<open>traverse_ray_3d\<close>
  computes it; \<open>None\<close> where the loop skips the sample because it is below the
  ground or outside the grid.
\<close>

definition step_key :: "vec3 \<Rightarrow> vec3 \<Rightarrow> int \<Rightarrow> real \<Rightarrow> real \<Rightarrow> nat \<Rightarrow> voxel_index option" where
  "step_key camera_pos ray_dir grid_size voxel_len step_size i =
     (let point_3d = vadd camera_pos (smul (real i * step_size) ray_dir);
          vox_x = py_int ((vec_x point_3d + 0.25) / voxel_len);
          vox_y = py_int (vec_y point_3d / voxel_len);
          vox_z = py_int (vec_z point_3d / voxel_len)
      in if vec_y point_3d < 0 then None
         else if \<not> (0 \<le> vox_x \<and> vox_x < grid_size \<and> 0 \<le> vox_y \<and> vox_y < grid_size \<and>
                    0 \<le> vox_z \<and> vox_z < grid_size) then None
         else Some (vox_z, vox_y, vox_x))"

text \<open>
  A calibration that the ray model can divide by: no calibration, or one whose focal
  lengths are not zero.
\<close>

definition calibration_ok :: "camera_calibration option \<Rightarrow> bool" where
  "calibration_ok calib =
     (case calib of
        None \<Rightarrow> True
      | Some c \<Rightarrow> vec_x (fst (camera_matrix c)) \<noteq> 0 \<and> vec_y (fst (snd (camera_matrix c))) \<noteq> 0)"

section \<open>Concrete inputs\<close>

text \<open>
  A stereo calibration whose right camera is rotated about the Y axis towards the left
  one, with the baseline of half a metre, and a calibration of the loader without
  lens distortion: the inputs at which the theorems below are instantiated.
\<close>

definition tilted_calibration :: calibrated_reconstructor where
  "tilted_calibration =
     \<lparr> fx_left = 748, fy_left = 748, cx_left = 960, cy_left = 540, k1_left = - 0.15,
       fx_right = 748, fy_right = 748, cx_right = 960, cy_right = 540, k1_right = - 0.15,
       R_right = ((4 / 5, 0, - 3 / 5), (0, 1, 0), (3 / 5, 0, 4 / 5)),
       cal_cam_left_pos = (0, 0, 0), cal_cam_right_pos = (1 / 2, 0, 0),
       cal_max_triangulation_error = 0.02 \<rparr>"

definition plain_calibration :: camera_calibration where
  "plain_calibration =
     \<lparr> camera_matrix = ((748, 0, 960), (0, 748, 540), (0, 0, 1)),
       cv2_undistortPoints = (\<lambda>pixel_x pixel_y. (pixel_x, pixel_y)) \<rparr>"

text \<open>
  The distorted angle \<open>theta_distorted\<close> that \<open>get_ray_direction\<close>
  computes with \<open>k1 = -0.15\<close> for a pixel at the normalised radius 1, where
  \<open>theta\<close> is a quarter of \<open>pi\<close>.
\<close>

definition theta_distorted_at_one :: real where
  "theta_distorted_at_one = pi / 4 * (1 + (- 0.15) * (pi / 4) ^ 2)"

text \<open>
  The state of a session whose cells all hold the confidence 2 and whose previous
  frames are a single dark pixel; the configuration with the defaults of
  \<open>ReconstructionConfig\<close>, the grid and the camera positions of
  \<open>improved_ray_traversal.py\<close>; a calibration of the loader with the focal
  length 3 and the principal point \<open>(4, 0)\<close>, without distortion; and frames of
  five pixels in one row.
\<close>

definition warm_state :: cycle_state where
  "warm_state =
     \<lparr> voxel_grid = (\<lambda>_. 2), camera_hits = (\<lambda>_. False),
       prev_left = [[0]], prev_right = [[0]] \<rparr>"

definition default_config :: system_config where
  "default_config =
     \<lparr> cfg_size = 64, cfg_voxel_size_meters = 0.01,
       cfg_x_min = - 0.25, cfg_y_min = 0, cfg_z_min = 0,
       cfg_motion_threshold = 25, cfg_max_ray_distance_meters = 1.0,
       cfg_ray_step_size_ratio = 0.5, cfg_temporal_decay = 0.99,
       cfg_multi_camera_boost = 1.5, cfg_distance_falloff_factor = 0.2,
       cfg_left_position = (0, 0, 0), cfg_right_position = (0.5, 0, 0) \<rparr>"

definition narrow_calibration :: camera_calibration where
  "narrow_calibration =
     \<lparr> camera_matrix = ((3, 0, 4), (0, 3, 0), (0, 0, 1)),
       cv2_undistortPoints = (\<lambda>pixel_x pixel_y. (pixel_x, pixel_y)) \<rparr>"

definition dark_row :: image where
  "dark_row = [[0, 0, 0, 0, 0]]"

definition bright_last :: image where
  "bright_last = [[0, 0, 0, 0, 255]]"

definition bright_first :: image where
  "bright_first = [[255, 0, 0, 0, 0]]"

text \<open>
  A list of ray voxels whose weights are all non-negative.
\<close>

definition weights_nonneg :: "ray_voxel list \<Rightarrow> bool" where
  "weights_nonneg es = (\<forall>e \<in> set es. 0 \<le> snd (snd (snd e)))"

section \<open>Properties of the triangulation\<close>

lemma np_dot_commute: "np_dot u v = np_dot v u"
  by (cases u; cases v) (simp add: mult.commute)

lemma np_dot_vsub_swap: "np_dot u (vsub p q) = - np_dot u (vsub q p)"
  by (cases u; cases p; cases q) (simp add: algebra_simps)

lemma vadd_commute: "vadd p q = vadd q p"
  by (cases p; cases q) simp

lemma linalg_norm_vsub_swap: "linalg_norm (vsub p q) = linalg_norm (vsub q p)"
proof (cases p; cases q)
  fix a1 a2 a3 b1 b2 b3 :: real
  assume p: "p = (a1, a2, a3)" and q: "q = (b1, b2, b3)"
  have "(a1 - b1) * (a1 - b1) = (b1 - a1) * (b1 - a1)"
       "(a2 - b2) * (a2 - b2) = (b2 - a2) * (b2 - a2)"
       "(a3 - b3) * (a3 - b3) = (b3 - a3) * (b3 - a3)"
    by (simp_all add: algebra_simps)
  then show ?thesis
    by (simp add: p q)
qed

text \<open>
  \<open>closest_point_between_rays\<close> in terms of its local variables.
\<close>

lemma closest_point_between_rays_locals:
  "closest_point_between_rays origin1 dir1 origin2 dir2 =
     (if \<bar>ray_dot dir1 dir2\<bar> > 0.996 then None
      else if \<bar>ray_denom dir1 dir2\<bar> < 1 / 10 ^ 6 then None
      else Some
        (sdiv (vadd (vadd origin1 (smul (ray_s origin1 dir1 origin2 dir2) (unit_dir dir1)))
                    (vadd origin2 (smul (ray_t origin1 dir1 origin2 dir2) (unit_dir dir2)))) 2,
         linalg_norm
           (vsub (vadd origin2 (smul (ray_t origin1 dir1 origin2 dir2) (unit_dir dir2)))
                 (vadd origin1 (smul (ray_s origin1 dir1 origin2 dir2) (unit_dir dir1))))))"
  by (simp add: closest_point_between_rays_def Let_def ray_dot_def ray_denom_def
      ray_s_def ray_t_def unit_dir_def)

lemma ray_dot_commute: "ray_dot dir2 dir1 = ray_dot dir1 dir2"
  by (simp add: ray_dot_def np_dot_commute)

lemma ray_denom_commute: "ray_denom dir2 dir1 = ray_denom dir1 dir2"
  by (simp add: ray_denom_def ray_dot_commute mult.commute)

lemma ray_s_swap: "ray_s origin2 dir2 origin1 dir1 = ray_t origin1 dir1 origin2 dir2"
proof -
  have "ray_s origin2 dir2 origin1 dir1 =
      (ray_dot dir1 dir2 * (- np_dot (unit_dir dir1) (vsub origin1 origin2))
        - np_dot (unit_dir dir1) (unit_dir dir1) * (- np_dot (unit_dir dir2) (vsub origin1 origin2)))
       / ray_denom dir1 dir2"
    unfolding ray_s_def ray_dot_commute [of dir1 dir2] ray_denom_commute [of dir1 dir2]
    using np_dot_vsub_swap [of _ origin2 origin1] by simp
  then show ?thesis
    by (simp add: ray_t_def)
qed

lemma ray_t_swap: "ray_t origin2 dir2 origin1 dir1 = ray_s origin1 dir1 origin2 dir2"
proof -
  have "ray_t origin2 dir2 origin1 dir1 =
      (np_dot (unit_dir dir2) (unit_dir dir2) * (- np_dot (unit_dir dir1) (vsub origin1 origin2))
        - ray_dot dir1 dir2 * (- np_dot (unit_dir dir2) (vsub origin1 origin2)))
       / ray_denom dir1 dir2"
    unfolding ray_t_def ray_dot_commute [of dir1 dir2] ray_denom_commute [of dir1 dir2]
    using np_dot_vsub_swap [of _ origin2 origin1] by simp
  then show ?thesis
    by (simp add: ray_s_def)
qed

lemma closest_point_between_rays_swap:
  "closest_point_between_rays o1 d1 o2 d2 = closest_point_between_rays o2 d2 o1 d1"
proof -
  let ?p1 = "vadd o1 (smul (ray_s o1 d1 o2 d2) (unit_dir d1))"
  let ?p2 = "vadd o2 (smul (ray_t o1 d1 o2 d2) (unit_dir d2))"
  have "closest_point_between_rays o2 d2 o1 d1 =
     (if \<bar>ray_dot d1 d2\<bar> > 0.996 then None
      else if \<bar>ray_denom d1 d2\<bar> < 1 / 10 ^ 6 then None
      else Some (sdiv (vadd ?p2 ?p1) 2, linalg_norm (vsub ?p1 ?p2)))"
    by (simp only: closest_point_between_rays_locals [of o2 d2 o1 d1]
        ray_s_swap [of o2 d2 o1 d1] ray_t_swap [of o2 d2 o1 d1]
        ray_dot_commute [of d1 d2] ray_denom_commute [of d1 d2])
  also have "\<dots> = closest_point_between_rays o1 d1 o2 d2"
    by (simp only: closest_point_between_rays_locals [of o1 d1 o2 d2]
        vadd_commute [of ?p2 ?p1] linalg_norm_vsub_swap [of ?p1 ?p2])
  finally show ?thesis by simp
qed

text \<open>
  Claim C1. The claim asks that rays whose closest approach has a negative parameter
  get no solution. The two methods named \<open>closest_point_between_rays\<close> of the
  reconstructor classes have no such test: for the ray from the origin straight up
  and the ray from \<open>(0.5, 0, 0)\<close> with direction \<open>(0.6, 0, 0.8)\<close>, which
  leans away from the first, both parameters are negative and the method returns the
  point \<open>(0, 0, -2/3)\<close> below the cameras, with separation 0. The function of the
  same name in \<open>camera/stereo_triangulation_calibration.py\<close> rejects the same
  pair.
\<close>

theorem behind_camera_point_returned:
  "ray_s (0, 0, 0) (0, 0, 1) (1 / 2, 0, 0) (3 / 5, 0, 4 / 5) = - 2 / 3 \<and>
   ray_t (0, 0, 0) (0, 0, 1) (1 / 2, 0, 0) (3 / 5, 0, 4 / 5) = - 5 / 6 \<and>
   closest_point_between_rays (0, 0, 0) (0, 0, 1) (1 / 2, 0, 0) (3 / 5, 0, 4 / 5)
     = Some ((0, 0, - 2 / 3), 0) \<and>
   calib_closest_point_between_rays (0, 0, 0) (0, 0, 1) (1 / 2, 0, 0) (3 / 5, 0, 4 / 5) = None"
  by (simp add: ray_s_def ray_t_def ray_dot_def ray_denom_def unit_dir_def
      closest_point_between_rays_def calib_closest_point_between_rays_def Let_def)

text \<open>
  Claim C6. Two rays whose normalised directions have a dot product of magnitude above
  0.996, or whose determinant \<open>denom\<close> has a magnitude below \<open>1e-6\<close>, get
  no solution; so do the two rays straight up from \<open>(0, 0, 0)\<close> and
  \<open>(0.5, 0, 0)\<close>.
\<close>

theorem parallel_rays_rejected:
  "(dir1 \<noteq> (0, 0, 0) \<and> dir2 \<noteq> (0, 0, 0) \<and>
      (\<bar>ray_dot dir1 dir2\<bar> > 0.996 \<or> \<bar>ray_denom dir1 dir2\<bar> < 1 / 10 ^ 6)
    \<longrightarrow> closest_point_between_rays origin1 dir1 origin2 dir2 = None) \<and>
   closest_point_between_rays (0, 0, 0) (0, 0, 1) (0.5, 0, 0) (0, 0, 1) = None"
proof
  show "dir1 \<noteq> (0, 0, 0) \<and> dir2 \<noteq> (0, 0, 0) \<and>
      (\<bar>ray_dot dir1 dir2\<bar> > 0.996 \<or> \<bar>ray_denom dir1 dir2\<bar> < 1 / 10 ^ 6)
    \<longrightarrow> closest_point_between_rays origin1 dir1 origin2 dir2 = None"
    by (simp add: closest_point_between_rays_locals)
next
  show "closest_point_between_rays (0, 0, 0) (0, 0, 1) (0.5, 0, 0) (0, 0, 1) = None"
    by (simp add: closest_point_between_rays_def Let_def)
qed

theorem parallel_rays_rejected_witness:
  "(0, 0, 2) \<noteq> (0 :: real, 0 :: real, 0 :: real) \<and>
   (0, 0, - 3) \<noteq> (0 :: real, 0 :: real, 0 :: real) \<and>
   \<bar>ray_dot (0, 0, 2) (0, 0, - 3)\<bar> > 0.996 \<and>
   closest_point_between_rays (1, 2, 3) (0, 0, 2) (0, 1, 0) (0, 0, - 3) = None"
proof -
  have "\<bar>ray_dot (0, 0, 2) (0, 0, - 3)\<bar> > 0.996"
    by (simp add: ray_dot_def unit_dir_def)
  then show ?thesis
    using parallel_rays_rejected [of "(0, 0, 2)" "(0, 0, - 3)" "(1, 2, 3)" "(0, 1, 0)"]
    by simp
qed

text \<open>
  Claim C9. Triangulation does not depend on the order of its two rays: with the rays
  exchanged it returns the same midpoint and the same separation, or no solution both
  times.
\<close>

theorem triangulation_symmetric:
  "dir1 \<noteq> (0, 0, 0) \<and> dir2 \<noteq> (0, 0, 0) \<longrightarrow>
     closest_point_between_rays origin1 dir1 origin2 dir2
       = closest_point_between_rays origin2 dir2 origin1 dir1"
  using closest_point_between_rays_swap by blast

theorem triangulation_symmetric_witness:
  "(0, 0, 1) \<noteq> (0 :: real, 0 :: real, 0 :: real) \<and>
   (- 3 / 5, 0, 4 / 5) \<noteq> (0 :: real, 0 :: real, 0 :: real) \<and>
   closest_point_between_rays (0, 0, 0) (0, 0, 1) (1 / 2, 0, 0) (- 3 / 5, 0, 4 / 5)
     = Some ((0, 0, 2 / 3), 0) \<and>
   closest_point_between_rays (1 / 2, 0, 0) (- 3 / 5, 0, 4 / 5) (0, 0, 0) (0, 0, 1)
     = Some ((0, 0, 2 / 3), 0)"
proof -
  have "closest_point_between_rays (0, 0, 0) (0, 0, 1) (1 / 2, 0, 0) (- 3 / 5, 0, 4 / 5)
      = Some ((0, 0, 2 / 3), 0)"
    by (simp add: closest_point_between_rays_def Let_def)
  then show ?thesis
    using triangulation_symmetric
      [of "(0, 0, 1)" "(- 3 / 5, 0, 4 / 5)" "(0, 0, 0)" "(1 / 2, 0, 0)"]
    by simp
qed

section \<open>Properties of the ray model and of the pixel-pair triangulation\<close>

lemma linalg_norm_ge_one: "1 \<le> linalg_norm (a, b, 1)"
proof -
  have "1 \<le> a * a + b * b + 1 * 1" by simp
  then have "sqrt 1 \<le> sqrt (a * a + b * b + 1 * 1)"
    using real_sqrt_le_mono by blast
  then show ?thesis by simp
qed

lemma unit_ray_z_positive: "0 < vec_z (sdiv (a, b, 1) (linalg_norm (a, b, 1)))"
proof -
  have "0 < linalg_norm (a, b, 1)"
    using linalg_norm_ge_one [of a b] by linarith
  then show ?thesis
    by (simp add: vec_z_def)
qed

lemma get_ray_direction_z: "0 < vec_z (get_ray_direction self pixel_x pixel_y)"
  unfolding get_ray_direction_def Let_def
  by (simp only: split_def fst_conv snd_conv unit_ray_z_positive split: if_splits)

lemma calib_get_ray_direction_z: "0 < vec_z (calib_get_ray_direction cal pixel_x pixel_y)"
  unfolding calib_get_ray_direction_def Let_def
  by (simp only: split_def unit_ray_z_positive)

text \<open>
  Claim C10. The ray direction of every pixel has a strictly positive Z component: the
  third component is 1 before the normalisation, which divides by a norm of at least
  1. This holds for \<open>StereoVoxelReconstructor.get_ray_direction\<close> and for
  \<open>CameraCalibration.get_ray_direction\<close>, whatever OpenCV's undistortion returns.
\<close>

theorem ray_points_up:
  "(fx self \<noteq> 0 \<and> fy self \<noteq> 0 \<longrightarrow> 0 < vec_z (get_ray_direction self pixel_x pixel_y)) \<and>
   (vec_x (fst (camera_matrix cal)) \<noteq> 0 \<and> vec_y (fst (snd (camera_matrix cal))) \<noteq> 0 \<longrightarrow>
      0 < vec_z (calib_get_ray_direction cal pixel_x pixel_y))"
  using get_ray_direction_z calib_get_ray_direction_z by blast

theorem ray_points_up_witness:
  "fx init_reconstructor \<noteq> 0 \<and> fy init_reconstructor \<noteq> 0 \<and>
   0 < vec_z (get_ray_direction init_reconstructor 1900 17) \<and>
   vec_x (fst (camera_matrix plain_calibration)) \<noteq> 0 \<and>
   vec_y (fst (snd (camera_matrix plain_calibration))) \<noteq> 0 \<and>
   0 < vec_z (calib_get_ray_direction plain_calibration 1900 17)"
  using ray_points_up [of init_reconstructor 1900 17 plain_calibration]
  by (simp add: init_reconstructor_def plain_calibration_def vec_x_def vec_y_def)

lemma theta_distorted_at_one_bounds: "2 / 5 < theta_distorted_at_one" "theta_distorted_at_one < 1"
proof -
  have p1: "1 / 2 \<le> pi / 4" using pi_ge_two by simp
  have p2: "pi / 4 < 1" using pi_less_4 by simp
  have p0: "0 < pi / 4" using p1 by linarith
  have sq: "(pi / 4) ^ 2 < 1"
    using p0 p2 by (simp add: power_less_one_iff)
  have sq_ge: "0 \<le> (pi / 4) ^ 2" by simp
  have f1: "17 / 20 < 1 + (- 0.15) * (pi / 4) ^ 2" using sq by simp
  have f2: "1 + (- 0.15) * (pi / 4) ^ 2 \<le> 1" using sq_ge by simp
  have "1 / 2 * (17 / 20) \<le> pi / 4 * (1 + (- 0.15) * (pi / 4) ^ 2)"
    by (rule mult_mono) (use p1 f1 in simp_all)
  then show "2 / 5 < theta_distorted_at_one" unfolding theta_distorted_at_one_def by linarith
  have "pi / 4 * (1 + (- 0.15) * (pi / 4) ^ 2) \<le> pi / 4 * 1"
    by (rule mult_left_mono) (use f2 p0 in simp_all)
  then show "theta_distorted_at_one < 1" unfolding theta_distorted_at_one_def using p2 by linarith
qed

lemma ray_212: "get_ray_direction init_reconstructor 212 540
   = sdiv (- theta_distorted_at_one, 0, 1) (linalg_norm (- theta_distorted_at_one, 0, 1))"
  by (simp add: get_ray_direction_def init_reconstructor_def theta_distorted_at_one_def Let_def arctan_one)

lemma ray_centre: "get_ray_direction init_reconstructor 960 540 = (0, 0, 1)"
  by (simp add: get_ray_direction_def init_reconstructor_def)

text \<open>
  The ray straight up from the origin and a ray from \<open>(0.5, 0, 0)\<close> that leans
  towards it by \<open>q\<close> meet above the origin at the height \<open>1 / (2 q)\<close>.
\<close>

lemma crossing_rays:
  fixes q :: real
  assumes q: "2 / 5 < q" "q < 1"
  shows "closest_point_between_rays (0, 0, 0) (0, 0, 1) (1 / 2, 0, 0)
           (sdiv (- q, 0, 1) (linalg_norm (- q, 0, 1)))
         = Some ((0, 0, 1 / (2 * q)), 0)"
proof -
  define n where "n = sqrt (q * q + 1)"
  have nn: "n * n = q * q + 1"
    unfolding n_def by (simp add: add_nonneg_nonneg)
  have n1: "1 < n"
  proof -
    have "sqrt 1 < sqrt (q * q + 1)"
      using q by (simp del: real_sqrt_one)
    then show ?thesis by (simp add: n_def)
  qed
  have n0: "0 < n" "n \<noteq> 0" using n1 by simp_all
  have d2: "sdiv (- q, 0, 1) (linalg_norm (- q, 0, 1)) = (- q / n, 0, 1 / n)"
    by (simp add: n_def)
  have pos: "0 < q * q + 1"
    by (simp add: add_nonneg_pos)
  have unit: "(- q / n) * (- q / n) + 0 * 0 + (1 / n) * (1 / n) = 1"
  proof -
    have "(- q / n) * (- q / n) + 0 * 0 + (1 / n) * (1 / n) = (q * q + 1) / (n * n)"
      by (simp add: add_divide_distrib)
    also have "\<dots> = 1"
      unfolding nn using pos by simp
    finally show ?thesis .
  qed
  have norm2: "linalg_norm (- q / n, 0, 1 / n) = 1"
    unfolding linalg_norm.simps unit by simp
  have dir1: "sdiv (0, 0, 1) (linalg_norm (0, 0, 1)) = (0, 0, 1 :: real)"
    by simp
  have dir2: "sdiv (- q / n, 0, 1 / n) (linalg_norm (- q / n, 0, 1 / n)) = (- q / n, 0, 1 / n)"
    unfolding norm2 by simp
  have dot: "np_dot (0, 0, 1) (- q / n, 0, 1 / n) = 1 / n"
    by simp
  have cc: "np_dot (- q / n, 0, 1 / n) (- q / n, 0, 1 / n) = 1"
    unfolding np_dot.simps unit by simp
  have n54: "29 / 25 < n * n"
  proof -
    have "2 / 5 * (2 / 5) < q * q"
      by (rule mult_strict_mono) (use q in simp_all)
    then show ?thesis unfolding nn by simp
  qed
  have inv_n: "1 / n < 1"
    using n1 by simp
  have n_big: "21 / 20 < n"
  proof (rule ccontr)
    assume "\<not> 21 / 20 < n"
    then have le: "n \<le> 21 / 20" by simp
    have "n * n \<le> 21 / 20 * (21 / 20)"
      by (rule mult_mono) (use le n0 in simp_all)
    with n54 show False by simp
  qed
  have inv_small: "1 / n < 996 / 1000"
  proof -
    have "1 < 996 / 1000 * n" using n_big by simp
    then show ?thesis
      using n0 by (simp add: pos_divide_less_eq)
  qed
  have test1: "\<not> \<bar>1 / n\<bar> > 0.996"
    using inv_small n0 by simp
  have denom: "1 * 1 - 1 / n * (1 / n) = q * q / (n * n)"
  proof -
    have "1 * 1 - 1 / n * (1 / n) = (n * n - 1) / (n * n)"
      using n0 by (simp add: field_simps)
    then show ?thesis unfolding nn by simp
  qed
  have qq: "4 / 25 < q * q"
  proof -
    have "2 / 5 * (2 / 5) < q * q"
      by (rule mult_strict_mono) (use q in simp_all)
    then show ?thesis by simp
  qed
  have nn2: "n * n < 2"
  proof -
    have "q * q < 1 * 1"
      by (rule mult_strict_mono) (use q in simp_all)
    then show ?thesis unfolding nn by simp
  qed
  have denom_big: "2 / 25 < q * q / (n * n)"
  proof -
    have "2 / 25 * (n * n) < q * q" using nn2 qq by linarith
    then show ?thesis
      using n0 by (simp add: pos_less_divide_eq)
  qed
  have gen: "2 / 25 < r \<Longrightarrow> \<not> \<bar>r\<bar> < 1 / 10 ^ 6" for r :: real
    by simp
  have test2: "\<not> \<bar>q * q / (n * n)\<bar> < 1 / 10 ^ 6"
    by (rule gen [OF denom_big])
  have q_nz: "q \<noteq> 0" using q by simp
  have s_val: "(1 / n * (q / (2 * n)) - 1 * 0) / (q * q / (n * n)) = 1 / (2 * q)"
    using n0 q_nz by (simp add: field_simps)
  have t_val: "(1 * (q / (2 * n)) - 1 / n * 0) / (q * q / (n * n)) = n / (2 * q)"
    using n0 q_nz by (simp add: field_simps)
  have e_val: "np_dot (- q / n, 0, 1 / n) (vsub (0, 0, 0) (1 / 2, 0, 0)) = q / (2 * n)"
    by simp
  have d_val: "np_dot (0, 0, 1) (vsub (0, 0, 0) (1 / 2, 0, 0)) = 0"
    by simp
  have p2: "vadd (1 / 2, 0, 0) (smul (n / (2 * q)) (- q / n, 0, 1 / n)) = (0, 0, 1 / (2 * q))"
    using n0 q_nz by (simp add: field_simps)
  have p1: "vadd (0, 0, 0) (smul (1 / (2 * q)) (0, 0, 1)) = (0, 0, 1 / (2 * q))"
    by simp
  have aa: "np_dot (0, 0, 1) (0, 0, 1 :: real) = 1" by simp
  show ?thesis
    unfolding closest_point_between_rays_def d2 Let_def dir1 dir2 dot cc aa e_val d_val
      denom s_val t_val p1 p2
    using test1 test2 by simp
qed

text \<open>
  Claim C5. The pixel-pair triangulation returns a point exactly when the triangulation
  of the two rays returns it, its separation is at most the maximum triangulation
  error, and its height is between 0 and 2; in every other case it returns no
  solution. This holds for both reconstructor classes, for focal lengths different from
  zero and, in the calibrated class, a rotation that does not send the right ray to the
  zero vector.
\<close>

theorem triangulate_pixel_pair_gates:
  "(fx self \<noteq> 0 \<and> fy self \<noteq> 0 \<longrightarrow>
      (triangulate_pixel_pair self px_left py_left px_right py_right = Some (point_3d, error)
        \<longleftrightarrow> closest_point_between_rays (cam_left_pos self)
                (get_ray_direction self px_left py_left)
                (cam_right_pos self) (get_ray_direction self px_right py_right)
              = Some (point_3d, error)
            \<and> error \<le> max_triangulation_error self
            \<and> 0 \<le> vec_z point_3d \<and> vec_z point_3d \<le> 2)) \<and>
   (fx_left cself \<noteq> 0 \<and> fy_left cself \<noteq> 0 \<and> fx_right cself \<noteq> 0 \<and> fy_right cself \<noteq> 0 \<and>
    matvec (R_right cself)
      (cal_get_ray_direction px_right py_right (fx_right cself) (fy_right cself)
         (cx_right cself) (cy_right cself) (k1_right cself)) \<noteq> (0, 0, 0) \<longrightarrow>
      (cal_triangulate_pixel_pair cself px_left py_left px_right py_right = Some (point_3d, error)
        \<longleftrightarrow> closest_point_between_rays (cal_cam_left_pos cself)
                (get_left_ray cself px_left py_left)
                (cal_cam_right_pos cself) (get_right_ray cself px_right py_right)
              = Some (point_3d, error)
            \<and> error \<le> cal_max_triangulation_error cself
            \<and> 0 \<le> vec_z point_3d \<and> vec_z point_3d \<le> 2))"
  by (auto simp add: triangulate_pixel_pair_def cal_triangulate_pixel_pair_def Let_def
      split: option.splits if_splits)

text \<open>
  The centre pixel of the left image and the pixel \<open>(212, 540)\<close> of the right
  image, one focal length left of the centre, give a point above the left camera; so
  do the two centre pixels under the tilted calibration.
\<close>

theorem triangulate_pixel_pair_gates_witness:
  "fx init_reconstructor \<noteq> 0 \<and> fy init_reconstructor \<noteq> 0 \<and>
   triangulate_pixel_pair init_reconstructor 960 540 212 540
     = Some ((0, 0, 1 / (2 * theta_distorted_at_one)), 0) \<and>
   0 \<le> max_triangulation_error init_reconstructor \<and>
   1 / (2 * theta_distorted_at_one) \<le> 2 \<and>
   fx_left tilted_calibration \<noteq> 0 \<and> fy_left tilted_calibration \<noteq> 0 \<and>
   fx_right tilted_calibration \<noteq> 0 \<and> fy_right tilted_calibration \<noteq> 0 \<and>
   matvec (R_right tilted_calibration)
      (cal_get_ray_direction 960 540 (fx_right tilted_calibration) (fy_right tilted_calibration)
         (cx_right tilted_calibration) (cy_right tilted_calibration)
         (k1_right tilted_calibration)) = (- 3 / 5, 0, 4 / 5) \<and>
   cal_triangulate_pixel_pair tilted_calibration 960 540 960 540 = Some ((0, 0, 2 / 3), 0)"
proof -
  let ?p = "(0, 0, 1 / (2 * theta_distorted_at_one))"
  have focal: "fx init_reconstructor \<noteq> 0 \<and> fy init_reconstructor \<noteq> 0"
    by (simp add: init_reconstructor_def)
  have rays: "closest_point_between_rays (cam_left_pos init_reconstructor)
      (get_ray_direction init_reconstructor 960 540)
      (cam_right_pos init_reconstructor) (get_ray_direction init_reconstructor 212 540)
    = Some (?p, 0)"
    unfolding ray_212 ray_centre
    using crossing_rays [OF theta_distorted_at_one_bounds]
    by (simp add: init_reconstructor_def)
  have err: "0 \<le> max_triangulation_error init_reconstructor"
    by (simp add: init_reconstructor_def)
  have low: "0 \<le> vec_z ?p"
    using theta_distorted_at_one_bounds by (simp add: vec_z_def)
  have high: "vec_z ?p \<le> 2"
  proof -
    have "1 \<le> 2 * (2 * theta_distorted_at_one)"
      using theta_distorted_at_one_bounds by simp
    then have "1 / (2 * theta_distorted_at_one) \<le> 2"
      using theta_distorted_at_one_bounds by (simp add: pos_divide_le_eq)
    then show ?thesis by (simp add: vec_z_def)
  qed
  have cal_focal: "fx_left tilted_calibration \<noteq> 0 \<and> fy_left tilted_calibration \<noteq> 0 \<and>
      fx_right tilted_calibration \<noteq> 0 \<and> fy_right tilted_calibration \<noteq> 0"
    by (simp add: tilted_calibration_def)
  have rotated: "matvec (R_right tilted_calibration)
      (cal_get_ray_direction 960 540 (fx_right tilted_calibration) (fy_right tilted_calibration)
         (cx_right tilted_calibration) (cy_right tilted_calibration)
         (k1_right tilted_calibration)) = (- 3 / 5, 0, 4 / 5)"
    by (simp add: tilted_calibration_def cal_get_ray_direction_def)
  have cal_rays: "closest_point_between_rays (cal_cam_left_pos tilted_calibration)
      (get_left_ray tilted_calibration 960 540)
      (cal_cam_right_pos tilted_calibration) (get_right_ray tilted_calibration 960 540)
    = Some ((0, 0, 2 / 3), 0)"
    by (simp add: tilted_calibration_def get_left_ray_def get_right_ray_def
        cal_get_ray_direction_def closest_point_between_rays_def Let_def)
  have cal_gates: "0 \<le> cal_max_triangulation_error tilted_calibration \<and>
      0 \<le> vec_z (0, 0, 2 / 3 :: real) \<and> vec_z (0, 0, 2 / 3 :: real) \<le> 2"
    by (simp add: tilted_calibration_def vec_z_def)
  from focal rays err low high
  have "triangulate_pixel_pair init_reconstructor 960 540 212 540 = Some (?p, 0)"
    using triangulate_pixel_pair_gates [of init_reconstructor 960 540 212 540 ?p 0]
    by blast
  moreover from cal_focal rotated cal_rays cal_gates
  have "cal_triangulate_pixel_pair tilted_calibration 960 540 960 540 = Some ((0, 0, 2 / 3), 0)"
    using triangulate_pixel_pair_gates [of _ 960 540 960 540 "(0, 0, 2 / 3)" 0 tilted_calibration]
    by simp
  ultimately show ?thesis
    using focal cal_focal rotated err high by (simp add: vec_z_def)
qed

section \<open>Properties of the motion pixel extractor\<close>

lemma slice_step_subset: "set (slice_step step k ps) \<subseteq> set ps"
  by (induction ps arbitrary: k) auto

lemma combined_pixels_iff:
  "(x, y, intensity) \<in> set (combined_pixels self current previous) \<longleftrightarrow>
     y < length current \<and> x < length (current ! y) \<and> intensity = current ! y ! x \<and>
     int (unat (absdiff (current ! y ! x) (previous ! y ! x))) > motion_threshold self \<and>
     int (unat (current ! y ! x)) > min_pixel_intensity self"
  by (auto simp add: combined_pixels_def split: if_splits)

lemma detect_motion_pixels_subset:
  assumes "detect_motion_pixels self current (Some previous) max_pixels = Inr pixels"
  shows "set pixels \<subseteq> set (combined_pixels self current previous)"
proof -
  let ?all = "combined_pixels self current previous"
  from assms consider "pixels = []" | "pixels = ?all"
    | "pixels = take max_pixels (slice_step (length ?all div max_pixels) 0 ?all)"
    by (auto simp add: detect_motion_pixels_def Let_def split: if_splits)
  then show ?thesis
  proof cases
    case 3
    have "set pixels \<subseteq> set (slice_step (length ?all div max_pixels) 0 ?all)"
      unfolding 3 by (rule set_take_subset)
    then show ?thesis
      using slice_step_subset by fastforce
  qed simp_all
qed

text \<open>
  Claim C7. On the first frame, when there is no previous frame, the extractor returns
  the empty list. Otherwise every pixel of its output lies in the frame, carries the
  intensity of the current frame there, differs from the previous frame by more than
  the motion threshold and is brighter than the intensity threshold: both conditions
  hold for it.
\<close>

theorem detect_motion_pixels_conjunction:
  "detect_motion_pixels self current None max_pixels = Inr [] \<and>
   (detect_motion_pixels self current (Some previous) max_pixels = Inr pixels \<longrightarrow>
     (\<forall>(x, y, intensity) \<in> set pixels.
        y < length current \<and> x < length (current ! y) \<and> intensity = current ! y ! x \<and>
        int (unat (absdiff (current ! y ! x) (previous ! y ! x))) > motion_threshold self \<and>
        int (unat (current ! y ! x)) > min_pixel_intensity self))"
proof
  show "detect_motion_pixels self current None max_pixels = Inr []"
    by (simp add: detect_motion_pixels_def)
next
  show "detect_motion_pixels self current (Some previous) max_pixels = Inr pixels \<longrightarrow>
     (\<forall>(x, y, intensity) \<in> set pixels.
        y < length current \<and> x < length (current ! y) \<and> intensity = current ! y ! x \<and>
        int (unat (absdiff (current ! y ! x) (previous ! y ! x))) > motion_threshold self \<and>
        int (unat (current ! y ! x)) > min_pixel_intensity self)"
  proof
    assume "detect_motion_pixels self current (Some previous) max_pixels = Inr pixels"
    then have "set pixels \<subseteq> set (combined_pixels self current previous)"
      by (rule detect_motion_pixels_subset)
    then show "\<forall>(x, y, intensity) \<in> set pixels.
        y < length current \<and> x < length (current ! y) \<and> intensity = current ! y ! x \<and>
        int (unat (absdiff (current ! y ! x) (previous ! y ! x))) > motion_threshold self \<and>
        int (unat (current ! y ! x)) > min_pixel_intensity self"
      using combined_pixels_iff by fastforce
  qed
qed

text \<open>
  A frame of three pixels: the first moved and is bright, the second moved and is dark,
  the third is bright and did not move. Only the first is returned.
\<close>

theorem detect_motion_pixels_conjunction_witness:
  "detect_motion_pixels init_reconstructor [[200, 10, 200]] (Some [[0, 200, 200]]) 100
     = Inr [(0, 0, 200)] \<and>
   int (unat (absdiff ([[200, 10, 200]] ! 0 ! 0) ([[0, 200, 200 :: 8 word]] ! 0 ! 0)))
     > motion_threshold init_reconstructor \<and>
   int (unat ([[200, 10, 200 :: 8 word]] ! 0 ! 0)) > min_pixel_intensity init_reconstructor"
proof -
  have run: "detect_motion_pixels init_reconstructor [[200, 10, 200]] (Some [[0, 200, 200]]) 100
     = Inr [(0, 0, 200)]"
    by (simp add: detect_motion_pixels_def combined_pixels_def init_reconstructor_def
        absdiff_def Let_def)
  with detect_motion_pixels_conjunction
    [of init_reconstructor "[[200, 10, 200]]" 100 "[[0, 200, 200]]" "[(0, 0, 200)]"]
  show ?thesis by simp
qed

section \<open>Properties of the frame cycle\<close>

text \<open>
  Each loop of the frame cycle is a fold; what it does to the grid is stated with the
  list of the voxels that the rays of a camera cross (\<open>camera_entries\<close>), the
  amount such a list adds to a cell (\<open>contributions\<close>) and the cells it names
  (\<open>seen_cells\<close>).
\<close>

lemma foldl_invariant:
  assumes "P s" and "\<And>s i. P s \<Longrightarrow> P (f s i)"
  shows "P (foldl f s xs)"
  using assms(1) by (induction xs arbitrary: s) (simp_all add: assms(2))

lemma contributions_append:
  "contributions (xs @ ys) v = contributions xs v + contributions ys v"
  by (induction xs) auto

lemma seen_cells_append: "seen_cells (xs @ ys) = seen_cells xs \<union> seen_cells ys"
  by (simp add: seen_cells_def image_Un)

lemma seen_cells_Nil: "seen_cells [] = {}"
  by (simp add: seen_cells_def)

lemma seen_cells_Cons:
  "seen_cells ((vox_z, vox_y, vox_x, w) # rest) = insert (vox_z, vox_y, vox_x) (seen_cells rest)"
  by (simp add: seen_cells_def)

lemma accumulate_ray_eq:
  "accumulate_ray cam (vg, ch) es =
     (\<lambda>v. vg v + contributions es v,
      \<lambda>k. ch k \<or> (snd k = cam \<and> fst k \<in> seen_cells es))"
proof (induction es arbitrary: vg ch)
  case Nil
  then show ?case by (simp add: seen_cells_Nil)
next
  case (Cons e es)
  obtain vox_z vox_y vox_x w where e: "e = (vox_z, vox_y, vox_x, w)"
    by (cases e) auto
  show ?case
    unfolding e accumulate_ray.simps Cons.IH
    by (auto simp add: fun_eq_iff seen_cells_Cons)
qed

lemma accumulate_ray_append:
  "accumulate_ray cam acc (xs @ ys) = accumulate_ray cam (accumulate_ray cam acc xs) ys"
proof (induction xs arbitrary: acc)
  case Nil
  then show ?case by simp
next
  case (Cons e xs)
  obtain vg ch where acc: "acc = (vg, ch)" by (cases acc)
  obtain vox_z vox_y vox_x w where e: "e = (vox_z, vox_y, vox_x, w)"
    by (cases e) auto
  show ?case
    unfolding acc e by (simp add: Cons.IH)
qed

lemma process_camera_entries:
  "process_camera cam traverse calib img acc coords =
     (case camera_entries traverse calib img coords of
        Inl err \<Rightarrow> Inl err
      | Inr es \<Rightarrow> Inr (accumulate_ray cam acc es))"
proof (induction coords arbitrary: acc)
  case Nil
  then show ?case by simp
next
  case (Cons c coords)
  obtain py px where c: "c = (py, px)" by (cases c)
  show ?case
    unfolding c
    by (simp add: Cons.IH Let_def accumulate_ray_append split: sum.splits)
qed

lemma camera_entries_total:
  assumes "\<And>ray_dir intensity. \<exists>es. traverse ray_dir intensity = Inr es"
  shows "\<exists>es. camera_entries traverse calib img coords = Inr es"
proof (induction coords)
  case Nil
  then show ?case by simp
next
  case (Cons c coords)
  obtain py px where c: "c = (py, px)" by (cases c)
  obtain es where es: "camera_entries traverse calib img coords = Inr es"
    using Cons.IH by blast
  obtain ray where ray: "traverse (pixel_ray calib px py) (real (unat (img ! py ! px)) / 255) = Inr ray"
    using assms by blast
  show ?case
    unfolding c camera_entries.simps es ray by simp
qed

lemma traverse_ray_3d_total: "\<exists>es. traverse_ray_3d camera_pos ray_dir 64 0.01 0.8 intensity = Inr es"
  by (simp add: traverse_ray_3d_def Let_def)

lemma ray_entries_total: "\<exists>es. ray_entries camera_pos calib img prev = Inr es"
  unfolding ray_entries_def
  by (rule camera_entries_total) (rule traverse_ray_3d_total)

lemma boost_decay_after_rays:
  "decay_grid decay (boost_cells
       (snd (accumulate_ray 1 (accumulate_ray 0 (vg, \<lambda>_. False) left) right)) boost
       (fst (accumulate_ray 1 (accumulate_ray 0 (vg, \<lambda>_. False) left) right)))
   = (\<lambda>v. if v \<in> seen_cells left \<and> v \<in> seen_cells right
          then (vg v + contributions (left @ right) v) * boost * decay
          else (vg v + contributions (left @ right) v) * decay)"
  by (auto simp add: accumulate_ray_eq decay_grid_def boost_cells_def fun_eq_iff
      contributions_append)

lemma frame_cycle_eq:
  assumes "frame_cycle calib st img_left img_right = Inr st'"
  shows "\<exists>left right.
      ray_entries CAMERA_LEFT_POS calib img_left (prev_left st) = Inr left \<and>
      ray_entries CAMERA_RIGHT_POS calib img_right (prev_right st) = Inr right \<and>
      st' = \<lparr> voxel_grid = decay_grid 0.99 (boost_cells
                 (snd (accumulate_ray 1 (accumulate_ray 0 (voxel_grid st, \<lambda>_. False) left) right)) 1.5
                 (fst (accumulate_ray 1 (accumulate_ray 0 (voxel_grid st, \<lambda>_. False) left) right))),
               camera_hits = snd (accumulate_ray 1 (accumulate_ray 0 (voxel_grid st, \<lambda>_. False) left) right),
               prev_left = img_left, prev_right = img_right \<rparr>"
  using assms
  unfolding frame_cycle_def ray_entries_def process_camera_entries Let_def
  by (auto split: if_splits sum.splits prod.splits)

lemma cfg_frame_cycle_eq:
  assumes "cfg_frame_cycle config left_calib right_calib st img_left img_right = Inr st'"
  shows "\<exists>left right.
      cfg_ray_entries config (cfg_left_position config) left_calib img_left (prev_left st) = Inr left \<and>
      cfg_ray_entries config (cfg_right_position config) right_calib img_right (prev_right st) = Inr right \<and>
      st' = \<lparr> voxel_grid = decay_grid (cfg_temporal_decay config) (boost_cells
                 (snd (accumulate_ray 1 (accumulate_ray 0 (voxel_grid st, \<lambda>_. False) left) right))
                 (cfg_multi_camera_boost config)
                 (fst (accumulate_ray 1 (accumulate_ray 0 (voxel_grid st, \<lambda>_. False) left) right))),
               camera_hits = snd (accumulate_ray 1 (accumulate_ray 0 (voxel_grid st, \<lambda>_. False) left) right),
               prev_left = img_left, prev_right = img_right \<rparr>"
  using assms
  unfolding cfg_frame_cycle_def cfg_ray_entries_def process_camera_entries Let_def
  by (auto split: if_splits sum.splits prod.splits)

lemma frame_cycle_grid:
  assumes "frame_cycle calib st img_left img_right = Inr st'"
  shows "\<exists>left right.
      ray_entries CAMERA_LEFT_POS calib img_left (prev_left st) = Inr left \<and>
      ray_entries CAMERA_RIGHT_POS calib img_right (prev_right st) = Inr right \<and>
      (\<forall>v. voxel_grid st' v =
         (if v \<in> seen_cells left \<and> v \<in> seen_cells right
          then (voxel_grid st v + contributions (left @ right) v) * 1.5 * 0.99
          else (voxel_grid st v + contributions (left @ right) v) * 0.99))"
proof -
  obtain left right where
    l: "ray_entries CAMERA_LEFT_POS calib img_left (prev_left st) = Inr left" and
    r: "ray_entries CAMERA_RIGHT_POS calib img_right (prev_right st) = Inr right" and
    st': "st' = \<lparr> voxel_grid = decay_grid 0.99 (boost_cells
                 (snd (accumulate_ray 1 (accumulate_ray 0 (voxel_grid st, \<lambda>_. False) left) right)) 1.5
                 (fst (accumulate_ray 1 (accumulate_ray 0 (voxel_grid st, \<lambda>_. False) left) right))),
               camera_hits = snd (accumulate_ray 1 (accumulate_ray 0 (voxel_grid st, \<lambda>_. False) left) right),
               prev_left = img_left, prev_right = img_right \<rparr>"
    using frame_cycle_eq [OF assms] by blast
  have "voxel_grid st' = (\<lambda>v. if v \<in> seen_cells left \<and> v \<in> seen_cells right
          then (voxel_grid st v + contributions (left @ right) v) * 1.5 * 0.99
          else (voxel_grid st v + contributions (left @ right) v) * 0.99)"
    unfolding st' using boost_decay_after_rays [of "0.99" "voxel_grid st" left right "1.5"]
    by simp
  then show ?thesis using l r by auto
qed

lemma cfg_frame_cycle_grid:
  assumes "cfg_frame_cycle config left_calib right_calib st img_left img_right = Inr st'"
  shows "\<exists>left right.
      cfg_ray_entries config (cfg_left_position config) left_calib img_left (prev_left st) = Inr left \<and>
      cfg_ray_entries config (cfg_right_position config) right_calib img_right (prev_right st) = Inr right \<and>
      (\<forall>v. voxel_grid st' v =
         (if v \<in> seen_cells left \<and> v \<in> seen_cells right
          then (voxel_grid st v + contributions (left @ right) v)
                 * cfg_multi_camera_boost config * cfg_temporal_decay config
          else (voxel_grid st v + contributions (left @ right) v) * cfg_temporal_decay config))"
proof -
  obtain left right where
    l: "cfg_ray_entries config (cfg_left_position config) left_calib img_left (prev_left st) = Inr left" and
    r: "cfg_ray_entries config (cfg_right_position config) right_calib img_right (prev_right st) = Inr right" and
    st': "st' = \<lparr> voxel_grid = decay_grid (cfg_temporal_decay config) (boost_cells
                 (snd (accumulate_ray 1 (accumulate_ray 0 (voxel_grid st, \<lambda>_. False) left) right))
                 (cfg_multi_camera_boost config)
                 (fst (accumulate_ray 1 (accumulate_ray 0 (voxel_grid st, \<lambda>_. False) left) right))),
               camera_hits = snd (accumulate_ray 1 (accumulate_ray 0 (voxel_grid st, \<lambda>_. False) left) right),
               prev_left = img_left, prev_right = img_right \<rparr>"
    using cfg_frame_cycle_eq [OF assms] by blast
  have "voxel_grid st' = (\<lambda>v. if v \<in> seen_cells left \<and> v \<in> seen_cells right
          then (voxel_grid st v + contributions (left @ right) v)
                 * cfg_multi_camera_boost config * cfg_temporal_decay config
          else (voxel_grid st v + contributions (left @ right) v) * cfg_temporal_decay config)"
    unfolding st'
    using boost_decay_after_rays [of "cfg_temporal_decay config" "voxel_grid st" left right
        "cfg_multi_camera_boost config"]
    by simp
  then show ?thesis using l r by auto
qed

lemma frame_cycle_returns:
  assumes "map length img_left = map length (prev_left st)"
    and "map length img_right = map length (prev_right st)"
  shows "\<exists>st'. frame_cycle calib st img_left img_right = Inr st'"
proof -
  obtain left where l: "ray_entries CAMERA_LEFT_POS calib img_left (prev_left st) = Inr left"
    using ray_entries_total by blast
  obtain right where r: "ray_entries CAMERA_RIGHT_POS calib img_right (prev_right st) = Inr right"
    using ray_entries_total by blast
  show ?thesis
    using assms l r
    unfolding frame_cycle_def ray_entries_def process_camera_entries Let_def
    by (auto split: prod.splits)
qed

text \<open>
  Claim C2. A frame cycle adds the contributions of both cameras to the grid, then
  multiplies the cells that both cameras saw by the boost, then multiplies every cell
  by the decay: a cell seen by both cameras ends the cycle at
  \<open>(base + contributions) * boost * decay\<close>, every other cell at
  \<open>(base + contributions) * decay\<close>. The factors are 1.5 and 0.99 in
  \<open>improved_ray_traversal.py\<close> and the configured ones in
  \<open>configurable_reconstruction.py\<close>, whose falloff factor is taken to be
  non-negative; the focal lengths of the calibrations are taken to be different from
  zero.
\<close>

theorem frame_cycle_boost_then_decay:
  "(calibration_ok calib \<and> frame_cycle calib st img_left img_right = Inr st' \<longrightarrow>
     (\<exists>left right.
        ray_entries CAMERA_LEFT_POS calib img_left (prev_left st) = Inr left \<and>
        ray_entries CAMERA_RIGHT_POS calib img_right (prev_right st) = Inr right \<and>
        (\<forall>v. voxel_grid st' v =
           (if v \<in> seen_cells left \<and> v \<in> seen_cells right
            then (voxel_grid st v + contributions (left @ right) v) * 1.5 * 0.99
            else (voxel_grid st v + contributions (left @ right) v) * 0.99)))) \<and>
   (calibration_ok left_calib \<and> calibration_ok right_calib \<and>
    0 \<le> cfg_distance_falloff_factor config \<and>
    cfg_frame_cycle config left_calib right_calib st img_left img_right = Inr cst' \<longrightarrow>
     (\<exists>left right.
        cfg_ray_entries config (cfg_left_position config) left_calib img_left (prev_left st)
          = Inr left \<and>
        cfg_ray_entries config (cfg_right_position config) right_calib img_right (prev_right st)
          = Inr right \<and>
        (\<forall>v. voxel_grid cst' v =
           (if v \<in> seen_cells left \<and> v \<in> seen_cells right
            then (voxel_grid st v + contributions (left @ right) v)
                   * cfg_multi_camera_boost config * cfg_temporal_decay config
            else (voxel_grid st v + contributions (left @ right) v)
                   * cfg_temporal_decay config))))"
  using frame_cycle_grid cfg_frame_cycle_grid by blast

text \<open>
  The traversal lists the voxel of every sample that passes its tests: the set
  \<open>visited\<close> holds the cells of \<open>voxel_list\<close>, and no cell leaves the list.
\<close>

lemma traverse_body_visited:
  assumes "snd state = seen_cells (fst state)"
  shows "snd (traverse_body camera_pos ray_dir grid_size voxel_len step_size intensity state i)
     = seen_cells (fst (traverse_body camera_pos ray_dir grid_size voxel_len step_size intensity state i))"
proof -
  obtain voxel_list visited where s: "state = (voxel_list, visited)" by (cases state)
  show ?thesis
    using assms unfolding s traverse_body_def Let_def
    by (auto simp add: seen_cells_append seen_cells_Cons seen_cells_Nil split: if_splits)
qed

lemma traverse_body_keeps:
  assumes "k \<in> seen_cells (fst state)"
  shows "k \<in> seen_cells (fst (traverse_body camera_pos ray_dir grid_size voxel_len step_size intensity state i))"
proof -
  obtain voxel_list visited where s: "state = (voxel_list, visited)" by (cases state)
  show ?thesis
    using assms unfolding s traverse_body_def Let_def
    by (auto simp add: seen_cells_append split: if_splits)
qed

lemma traverse_body_adds:
  assumes "snd state = seen_cells (fst state)"
    and "step_key camera_pos ray_dir grid_size voxel_len step_size i = Some k"
  shows "k \<in> seen_cells (fst (traverse_body camera_pos ray_dir grid_size voxel_len step_size intensity state i))"
proof -
  obtain voxel_list visited where s: "state = (voxel_list, visited)" by (cases state)
  show ?thesis
    using assms unfolding s traverse_body_def step_key_def Let_def
    by (auto simp add: seen_cells_append seen_cells_Cons seen_cells_Nil split: if_splits)
qed

lemma traverse_ray_3d_visits:
  assumes r: "traverse_ray_3d camera_pos ray_dir grid_size voxel_len max_distance intensity = Inr entries"
    and i: "i < nat (py_int (max_distance / (voxel_len * 0.5)))"
    and k: "step_key camera_pos ray_dir grid_size voxel_len (voxel_len * 0.5) i = Some k"
  shows "k \<in> seen_cells entries"
proof -
  let ?body = "traverse_body camera_pos ray_dir grid_size voxel_len (voxel_len * 0.5) intensity"
  let ?n = "nat (py_int (max_distance / (voxel_len * 0.5)))"
  from r have e: "entries = fst (foldl ?body ([], {}) [0..<?n])"
    by (auto simp add: traverse_ray_3d_def Let_def split: if_splits)
  have split: "[0..<?n] = [0..<i] @ i # [Suc i..<?n]"
    using i by (metis le0 upt_add_eq_append upt_conv_Cons le_add_diff_inverse less_imp_le_nat)
  let ?before = "foldl ?body ([], {}) [0..<i]"
  have inv: "snd ?before = seen_cells (fst ?before)"
    by (rule foldl_invariant [where P = "\<lambda>s. snd s = seen_cells (fst s)"])
      (simp_all add: seen_cells_Nil traverse_body_visited)
  have at: "k \<in> seen_cells (fst (?body ?before i))"
    using inv k by (rule traverse_body_adds)
  have "k \<in> seen_cells (fst (foldl ?body (?body ?before i) [Suc i..<?n]))"
  proof (rule foldl_invariant [where P = "\<lambda>s. k \<in> seen_cells (fst s)"])
    show "k \<in> seen_cells (fst (?body ?before i))" by (rule at)
    show "k \<in> seen_cells (fst (?body s j))" if "k \<in> seen_cells (fst s)" for s j
      using that by (rule traverse_body_keeps)
  qed
  then show ?thesis
    unfolding e split foldl_append foldl_Cons .
qed

text \<open>
  A frame cycle on frames of the shape of the previous ones returns a state: the
  traversal cannot divide by zero with the voxel size of a centimetre.
\<close>

lemma frame_cycle_returns':
  assumes "map length img_left = map length (prev_left st)"
    and "map length img_right = map length (prev_right st)"
  shows "\<exists>st'. frame_cycle calib st img_left img_right = Inr st' \<and>
     prev_left st' = img_left \<and> prev_right st' = img_right"
proof -
  obtain st' where s: "frame_cycle calib st img_left img_right = Inr st'"
    using frame_cycle_returns [OF assms] by blast
  then have "prev_left st' = img_left \<and> prev_right st' = img_right"
    using frame_cycle_eq [OF s] by auto
  with s show ?thesis by blast
qed

lemma cfg_traverse_ray_3d_total:
  assumes "cfg_voxel_size_meters config * cfg_ray_step_size_ratio config \<noteq> 0"
  shows "\<exists>es. cfg_traverse_ray_3d camera_pos ray_dir config intensity = Inr es"
  using assms by (simp add: cfg_traverse_ray_3d_def Let_def)

lemma cfg_frame_cycle_returns:
  assumes "cfg_voxel_size_meters config * cfg_ray_step_size_ratio config \<noteq> 0"
    and "map length img_left = map length (prev_left st)"
    and "map length img_right = map length (prev_right st)"
  shows "\<exists>st'. cfg_frame_cycle config left_calib right_calib st img_left img_right = Inr st'"
proof -
  have total: "\<exists>es. cfg_ray_entries config camera_pos calib img prev = Inr es"
    for camera_pos calib img prev
    unfolding cfg_ray_entries_def
    by (rule camera_entries_total) (rule cfg_traverse_ray_3d_total [OF assms(1)])
  obtain left where l: "cfg_ray_entries config (cfg_left_position config) left_calib img_left
      (prev_left st) = Inr left"
    using total by blast
  obtain right where r: "cfg_ray_entries config (cfg_right_position config) right_calib img_right
      (prev_right st) = Inr right"
    using total by blast
  show ?thesis
    using assms(2,3) l r
    unfolding cfg_frame_cycle_def cfg_ray_entries_def process_camera_entries Let_def
    by (auto split: prod.splits)
qed

lemma sqrt_25_9: "sqrt (25 / 9) = 5 / 3"
  by (rule real_sqrt_unique) (simp_all add: power2_eq_square)

lemma narrow_left_ray: "pixel_ray (Some narrow_calibration) 4 0 = (0, 0, 1)"
  by (simp add: pixel_ray_def calib_get_ray_direction_def pixel_to_normalized_coords_def
      undistort_point_def narrow_calibration_def vec_x_def vec_y_def vec_z_def)

lemma narrow_right_ray: "pixel_ray (Some narrow_calibration) 0 0 = (- 4 / 5, 0, 3 / 5)"
  by (simp add: pixel_ray_def calib_get_ray_direction_def pixel_to_normalized_coords_def
      undistort_point_def narrow_calibration_def vec_x_def vec_y_def vec_z_def sqrt_25_9)

lemma upt_0_5: "[0..<5] = [0, 1, 2, 3, 4]"
  by code_simp

lemma motion_left: "motion_coords bright_last dark_row 25 = [(0, 4)]"
  by (simp add: motion_coords_def bright_last_def dark_row_def upt_0_5)

lemma motion_right: "motion_coords bright_first dark_row 25 = [(0, 0)]"
  by (simp add: motion_coords_def bright_first_def dark_row_def upt_0_5)

lemma left_entries:
  assumes "traverse_ray_3d CAMERA_LEFT_POS (0, 0, 1) 64 0.01 0.8 1 = Inr es"
  shows "ray_entries CAMERA_LEFT_POS (Some narrow_calibration) bright_last dark_row = Inr es"
  unfolding ray_entries_def motion_left
  using assms by (simp add: narrow_left_ray bright_last_def)

lemma right_entries:
  assumes "traverse_ray_3d CAMERA_RIGHT_POS (- 4 / 5, 0, 3 / 5) 64 0.01 0.8 1 = Inr es"
  shows "ray_entries CAMERA_RIGHT_POS (Some narrow_calibration) bright_first dark_row = Inr es"
  unfolding ray_entries_def motion_right
  using assms by (simp add: narrow_right_ray bright_first_def)

lemma left_key: "step_key CAMERA_LEFT_POS (0, 0, 1) 64 0.01 (0.01 * 0.5) 72 = Some (36, 0, 25)"
  by (simp add: step_key_def CAMERA_LEFT_POS_def py_int_def vec_x_def vec_y_def vec_z_def Let_def)

lemma right_key: "step_key CAMERA_RIGHT_POS (- 4 / 5, 0, 3 / 5) 64 0.01 (0.01 * 0.5) 123 = Some (36, 0, 25)"
  by (simp add: step_key_def CAMERA_RIGHT_POS_def py_int_def vec_x_def vec_y_def vec_z_def Let_def)

text \<open>
  A frame in which the left camera sees motion at the pixel \<open>(4, 0)\<close> and the
  right camera at the pixel \<open>(0, 0)\<close>: under the narrow calibration the left ray
  goes straight up and the right ray leans towards it, and both cross the cell
  \<open>(36, 0, 25)\<close>, which ends the cycle boosted and decayed. The second part is a
  cycle of the configurable script under the default configuration.
\<close>

theorem frame_cycle_boost_then_decay_witness:
  "calibration_ok (Some narrow_calibration) \<and> calibration_ok None \<and>
   0 \<le> cfg_distance_falloff_factor default_config \<and>
   (\<exists>st' left right.
      frame_cycle (Some narrow_calibration) (initial_state dark_row dark_row)
        bright_last bright_first = Inr st' \<and>
      ray_entries CAMERA_LEFT_POS (Some narrow_calibration) bright_last dark_row = Inr left \<and>
      ray_entries CAMERA_RIGHT_POS (Some narrow_calibration) bright_first dark_row = Inr right \<and>
      (36, 0, 25) \<in> seen_cells left \<and> (36, 0, 25) \<in> seen_cells right \<and>
      voxel_grid st' (36, 0, 25)
        = (0 + contributions (left @ right) (36, 0, 25)) * 1.5 * 0.99) \<and>
   (\<exists>cst' left right.
      cfg_frame_cycle default_config None None warm_state [[255]] [[255]] = Inr cst' \<and>
      cfg_ray_entries default_config (0, 0, 0) None [[255]] [[0]] = Inr left \<and>
      cfg_ray_entries default_config (0.5, 0, 0) None [[255]] [[0]] = Inr right \<and>
      voxel_grid cst' (0, 0, 25) =
        (if (0, 0, 25) \<in> seen_cells left \<and> (0, 0, 25) \<in> seen_cells right
         then (2 + contributions (left @ right) (0, 0, 25)) * 1.5 * 0.99
         else (2 + contributions (left @ right) (0, 0, 25)) * 0.99))"
proof -
  have ok: "calibration_ok (Some narrow_calibration)" "calibration_ok None"
      "0 \<le> cfg_distance_falloff_factor default_config"
    by (simp_all add: calibration_ok_def narrow_calibration_def default_config_def
        vec_x_def vec_y_def)
  let ?st = "initial_state dark_row dark_row"
  obtain es_left where
    tl: "traverse_ray_3d CAMERA_LEFT_POS (0, 0, 1) 64 0.01 0.8 1 = Inr es_left"
    using traverse_ray_3d_total by blast
  obtain es_right where
    tr: "traverse_ray_3d CAMERA_RIGHT_POS (- 4 / 5, 0, 3 / 5) 64 0.01 0.8 1 = Inr es_right"
    using traverse_ray_3d_total by blast
  have seen_left: "(36, 0, 25) \<in> seen_cells es_left"
    by (rule traverse_ray_3d_visits [OF tl _ left_key]) (simp add: py_int_def)
  have seen_right: "(36, 0, 25) \<in> seen_cells es_right"
    by (rule traverse_ray_3d_visits [OF tr _ right_key]) (simp add: py_int_def)
  have prevs: "prev_left ?st = dark_row" "prev_right ?st = dark_row"
      "voxel_grid ?st (36, 0, 25) = 0"
    by (simp_all add: initial_state_def)
  have "map length bright_last = map length (prev_left ?st)"
      "map length bright_first = map length (prev_right ?st)"
    by (simp_all add: initial_state_def bright_last_def bright_first_def dark_row_def)
  then obtain st' where
    run: "frame_cycle (Some narrow_calibration) ?st bright_last bright_first = Inr st'"
    using frame_cycle_returns by blast
  then obtain left right where
    l: "ray_entries CAMERA_LEFT_POS (Some narrow_calibration) bright_last (prev_left ?st)
          = Inr left" and
    r: "ray_entries CAMERA_RIGHT_POS (Some narrow_calibration) bright_first (prev_right ?st)
          = Inr right" and
    g: "\<forall>v. voxel_grid st' v =
           (if v \<in> seen_cells left \<and> v \<in> seen_cells right
            then (voxel_grid ?st v + contributions (left @ right) v) * 1.5 * 0.99
            else (voxel_grid ?st v + contributions (left @ right) v) * 0.99)"
    using ok(1) frame_cycle_boost_then_decay
      [of "Some narrow_calibration" ?st bright_last bright_first st']
    by blast
  have left: "left = es_left"
    using l left_entries [OF tl] by (simp add: prevs)
  have right: "right = es_right"
    using r right_entries [OF tr] by (simp add: prevs)
  have "voxel_grid st' (36, 0, 25)
        = (0 + contributions (left @ right) (36, 0, 25)) * 1.5 * 0.99"
    using g [rule_format, of "(36, 0, 25)"] seen_left seen_right
    unfolding left right prevs by simp
  then have part1: "\<exists>st' left right.
      frame_cycle (Some narrow_calibration) ?st bright_last bright_first = Inr st' \<and>
      ray_entries CAMERA_LEFT_POS (Some narrow_calibration) bright_last dark_row = Inr left \<and>
      ray_entries CAMERA_RIGHT_POS (Some narrow_calibration) bright_first dark_row = Inr right \<and>
      (36, 0, 25) \<in> seen_cells left \<and> (36, 0, 25) \<in> seen_cells right \<and>
      voxel_grid st' (36, 0, 25)
        = (0 + contributions (left @ right) (36, 0, 25)) * 1.5 * 0.99"
    using run l r seen_left seen_right unfolding left right prevs by blast
  have cfg: "cfg_voxel_size_meters default_config * cfg_ray_step_size_ratio default_config \<noteq> 0"
      "cfg_left_position default_config = (0, 0, 0)"
      "cfg_right_position default_config = (0.5, 0, 0)"
      "cfg_multi_camera_boost default_config = 1.5"
      "cfg_temporal_decay default_config = 0.99"
    by (simp_all add: default_config_def)
  have warm: "prev_left warm_state = [[0]]" "prev_right warm_state = [[0]]"
      "voxel_grid warm_state (0, 0, 25) = 2"
    by (simp_all add: warm_state_def)
  have "map length [[255 :: 8 word]] = map length (prev_left warm_state)"
      "map length [[255 :: 8 word]] = map length (prev_right warm_state)"
    by (simp_all add: warm)
  then obtain cst' where
    run: "cfg_frame_cycle default_config None None warm_state [[255]] [[255]] = Inr cst'"
    using cfg_frame_cycle_returns [OF cfg(1)] by blast
  then obtain left right where
    l: "cfg_ray_entries default_config (cfg_left_position default_config) None [[255]]
          (prev_left warm_state) = Inr left" and
    r: "cfg_ray_entries default_config (cfg_right_position default_config) None [[255]]
          (prev_right warm_state) = Inr right" and
    g: "\<forall>v. voxel_grid cst' v =
           (if v \<in> seen_cells left \<and> v \<in> seen_cells right
            then (voxel_grid warm_state v + contributions (left @ right) v)
                   * cfg_multi_camera_boost default_config * cfg_temporal_decay default_config
            else (voxel_grid warm_state v + contributions (left @ right) v)
                   * cfg_temporal_decay default_config)"
    using ok(2,3) frame_cycle_boost_then_decay
      [of _ warm_state "[[255]]" "[[255]]" _ None None default_config cst']
    by blast
  have part2: "\<exists>cst' left right.
      cfg_frame_cycle default_config None None warm_state [[255]] [[255]] = Inr cst' \<and>
      cfg_ray_entries default_config (0, 0, 0) None [[255]] [[0]] = Inr left \<and>
      cfg_ray_entries default_config (0.5, 0, 0) None [[255]] [[0]] = Inr right \<and>
      voxel_grid cst' (0, 0, 25) =
        (if (0, 0, 25) \<in> seen_cells left \<and> (0, 0, 25) \<in> seen_cells right
         then (2 + contributions (left @ right) (0, 0, 25)) * 1.5 * 0.99
         else (2 + contributions (left @ right) (0, 0, 25)) * 0.99)"
    using run l r g [rule_format, of "(0, 0, 25)"] unfolding cfg warm by blast
  show ?thesis
    using ok part1 part2 by blast
qed







section \<open>Properties of the bounds and of the sign of the cells\<close>

lemma clamp_index: "0 < n \<Longrightarrow> 0 \<le> max 0 (min i (n - 1)) \<and> max 0 (min i (n - 1)) < (n :: int)"
  by auto

lemma world_to_voxel_None: "\<not> in_box self world_pos \<Longrightarrow> world_to_voxel self world_pos = None"
  by (cases world_pos) (auto simp add: in_box_def world_to_voxel_def)

lemma world_to_voxel_Some:
  assumes "in_box self world_pos"
    and "0 < fst (voxel_grid_size self)" "0 < fst (snd (voxel_grid_size self))"
      "0 < snd (snd (voxel_grid_size self))"
  shows "\<exists>idx. world_to_voxel self world_pos = Some idx \<and> in_grid (voxel_grid_size self) idx"
proof -
  obtain x y z where p: "world_pos = (x, y, z)" by (cases world_pos) auto
  obtain n1 n2 n3 where n: "voxel_grid_size self = (n1, n2, n3)"
    by (cases "voxel_grid_size self") auto
  from assms(1) have "world_to_voxel self world_pos =
      Some (max 0 (min (py_int ((x - fst (voxel_bounds_x self)) / voxel_size self)) (n1 - 1)),
            max 0 (min (py_int ((y - fst (voxel_bounds_y self)) / voxel_size self)) (n2 - 1)),
            max 0 (min (py_int ((z - fst (voxel_bounds_z self)) / voxel_size self)) (n3 - 1)))"
    by (simp add: p n in_box_def world_to_voxel_def Let_def)
  moreover have "in_grid (voxel_grid_size self)
      (max 0 (min (py_int ((x - fst (voxel_bounds_x self)) / voxel_size self)) (n1 - 1)),
       max 0 (min (py_int ((y - fst (voxel_bounds_y self)) / voxel_size self)) (n2 - 1)),
       max 0 (min (py_int ((z - fst (voxel_bounds_z self)) / voxel_size self)) (n3 - 1)))"
    unfolding n in_grid_def using assms(2-4) clamp_index by (simp add: n)
  ultimately show ?thesis by blast
qed

lemma traverse_body_in_grid:
  assumes "\<forall>v \<in> seen_cells (fst state). in_grid (grid_size, grid_size, grid_size) v"
  shows "\<forall>v \<in> seen_cells (fst (traverse_body camera_pos ray_dir grid_size voxel_len step_size
            intensity state i)). in_grid (grid_size, grid_size, grid_size) v"
proof -
  obtain voxel_list visited where s: "state = (voxel_list, visited)" by (cases state)
  show ?thesis
    using assms unfolding s traverse_body_def Let_def
    by (auto simp add: seen_cells_append seen_cells_Cons seen_cells_Nil in_grid_def
        split: if_splits)
qed

lemma traverse_ray_3d_in_grid:
  assumes "traverse_ray_3d camera_pos ray_dir grid_size voxel_len max_distance intensity = Inr entries"
  shows "\<forall>v \<in> seen_cells entries. in_grid (grid_size, grid_size, grid_size) v"
proof -
  let ?body = "traverse_body camera_pos ray_dir grid_size voxel_len (voxel_len * 0.5) intensity"
  let ?steps = "[0..<nat (py_int (max_distance / (voxel_len * 0.5)))]"
  from assms have e: "entries = fst (foldl ?body ([], {}) ?steps)"
    by (auto simp add: traverse_ray_3d_def Let_def split: if_splits)
  have "\<forall>v \<in> seen_cells (fst (foldl ?body ([], {}) ?steps)).
      in_grid (grid_size, grid_size, grid_size) v"
    by (rule foldl_invariant [where P = "\<lambda>s. \<forall>v \<in> seen_cells (fst s).
        in_grid (grid_size, grid_size, grid_size) v"])
      (simp_all add: seen_cells_Nil traverse_body_in_grid)
  then show ?thesis unfolding e .
qed

text \<open>
  Claim C4. A point outside the world-space box leaves the reconstructor as it is: no
  cell is written. A point inside the box adds its confidence to exactly one cell,
  whose indices lie within the grid on every axis (for a voxel size different from
  zero and a grid with at least one cell on every axis). Every voxel that the ray traversal
  lists lies within the grid on every axis.
\<close>

theorem writes_within_grid:
  "(\<not> in_box self world_pos \<longrightarrow> accumulate_voxel self world_pos confidence = (self, False)) \<and>
   (in_box self world_pos \<and> voxel_size self \<noteq> 0 \<and> 0 < fst (voxel_grid_size self) \<and>
    0 < fst (snd (voxel_grid_size self)) \<and> 0 < snd (snd (voxel_grid_size self)) \<longrightarrow>
      (\<exists>idx. in_grid (voxel_grid_size self) idx \<and>
         accumulate_voxel self world_pos confidence =
           (self\<lparr> voxels := (voxels self)(idx := voxels self idx + confidence),
                  voxel_count := voxel_count self + 1 \<rparr>, True))) \<and>
   (traverse_ray_3d camera_pos ray_dir grid_size voxel_len max_distance intensity = Inr entries
      \<longrightarrow> (\<forall>v \<in> seen_cells entries. in_grid (grid_size, grid_size, grid_size) v))"
proof (intro conjI impI)
  assume "\<not> in_box self world_pos"
  then show "accumulate_voxel self world_pos confidence = (self, False)"
    by (simp add: accumulate_voxel_def world_to_voxel_None)
next
  assume "in_box self world_pos \<and> voxel_size self \<noteq> 0 \<and> 0 < fst (voxel_grid_size self) \<and>
    0 < fst (snd (voxel_grid_size self)) \<and> 0 < snd (snd (voxel_grid_size self))"
  then obtain idx where w: "world_to_voxel self world_pos = Some idx"
      and g: "in_grid (voxel_grid_size self) idx"
    using world_to_voxel_Some by blast
  have "accumulate_voxel self world_pos confidence =
           (self\<lparr> voxels := (voxels self)(idx := voxels self idx + confidence),
                  voxel_count := voxel_count self + 1 \<rparr>, True)"
    by (simp add: accumulate_voxel_def w)
  with g show "\<exists>idx. in_grid (voxel_grid_size self) idx \<and>
         accumulate_voxel self world_pos confidence =
           (self\<lparr> voxels := (voxels self)(idx := voxels self idx + confidence),
                  voxel_count := voxel_count self + 1 \<rparr>, True)"
    by blast
next
  assume "traverse_ray_3d camera_pos ray_dir grid_size voxel_len max_distance intensity = Inr entries"
  then show "\<forall>v \<in> seen_cells entries. in_grid (grid_size, grid_size, grid_size) v"
    by (rule traverse_ray_3d_in_grid)
qed

text \<open>
  A point on the upper X bound of the box is dropped, a point in the middle of the box
  is written to the cell \<open>(25, 50, 50)\<close>, and the first sample of a ray from the
  left camera is the voxel \<open>(0, 0, 25)\<close>.
\<close>

theorem writes_within_grid_witness:
  "\<not> in_box init_reconstructor (0.75, 0, 0.5) \<and>
   accumulate_voxel init_reconstructor (0.75, 0, 0.5) 1 = (init_reconstructor, False) \<and>
   in_box init_reconstructor (0, 0, 0.5) \<and>
   voxel_size init_reconstructor \<noteq> 0 \<and>
   0 < fst (voxel_grid_size init_reconstructor) \<and>
   0 < fst (snd (voxel_grid_size init_reconstructor)) \<and>
   0 < snd (snd (voxel_grid_size init_reconstructor)) \<and>
   (\<exists>idx. in_grid (voxel_grid_size init_reconstructor) idx \<and>
      accumulate_voxel init_reconstructor (0, 0, 0.5) 1 =
        (init_reconstructor\<lparr> voxels := (voxels init_reconstructor)
             (idx := voxels init_reconstructor idx + 1),
           voxel_count := voxel_count init_reconstructor + 1 \<rparr>, True)) \<and>
   world_to_voxel init_reconstructor (0, 0, 0.5) = Some (25, 50, 50) \<and>
   traverse_ray_3d (0, 0, 0) (0, 1, 0) 64 0.01 0.005 1 = Inr [(0, 0, 25, 1)] \<and>
   in_grid (64, 64, 64) (0, 0, 25)"
proof -
  have out: "\<not> in_box init_reconstructor (0.75, 0, 0.5)"
    by (simp add: in_box_def init_reconstructor_def)
  have inside: "in_box init_reconstructor (0, 0, 0.5) \<and>
      voxel_size init_reconstructor \<noteq> 0 \<and>
      0 < fst (voxel_grid_size init_reconstructor) \<and>
      0 < fst (snd (voxel_grid_size init_reconstructor)) \<and>
      0 < snd (snd (voxel_grid_size init_reconstructor))"
    by (simp add: in_box_def init_reconstructor_def)
  have cell: "world_to_voxel init_reconstructor (0, 0, 0.5) = Some (25, 50, 50)"
    by (simp add: world_to_voxel_def init_reconstructor_def py_int_def)
  have ray: "traverse_ray_3d (0, 0, 0) (0, 1, 0) 64 0.01 0.005 1 = Inr [(0, 0, 25, 1)]"
    by (simp add: traverse_ray_3d_def traverse_body_def py_int_def Let_def
        vec_x_def vec_y_def vec_z_def)
  note inst = writes_within_grid
  have "accumulate_voxel init_reconstructor (0.75, 0, 0.5) 1 = (init_reconstructor, False)"
    using inst [of init_reconstructor "(0.75, 0, 0.5)" 1] out by blast
  moreover have "\<exists>idx. in_grid (voxel_grid_size init_reconstructor) idx \<and>
      accumulate_voxel init_reconstructor (0, 0, 0.5) 1 =
        (init_reconstructor\<lparr> voxels := (voxels init_reconstructor)
             (idx := voxels init_reconstructor idx + 1),
           voxel_count := voxel_count init_reconstructor + 1 \<rparr>, True)"
    using inst [of init_reconstructor "(0, 0, 0.5)" 1] inside by blast
  moreover have "in_grid (64, 64, 64) (0, 0, 25)"
    using inst [of _ _ _ "(0, 0, 0)" "(0, 1, 0)" 64 "0.01" "0.005" 1 "[(0, 0, 25, 1)]"] ray
    by (simp add: seen_cells_Cons)
  ultimately show ?thesis
    using out inside cell ray by blast
qed

text \<open>
  The traversal does not test the world-space box but the truncated indices: a sample
  a little left of the lower X bound, at \<open>x = -0.255\<close>, is listed with the index 0,
  because Python's \<open>int\<close> truncates \<open>-0.5\<close> to 0.
\<close>

lemma ceiling_minus_half: "\<lceil>- (1 / 2) :: real\<rceil> = 0"
  by (rule ceiling_unique) simp_all

lemma traverse_ray_3d_truncates:
  "traverse_ray_3d (- 0.255, 0, 0) (0, 1, 0) 64 0.01 0.005 1 = Inr [(0, 0, 0, 1)]"
  by (simp add: traverse_ray_3d_def traverse_body_def py_int_def Let_def
      vec_x_def vec_y_def vec_z_def ceiling_minus_half)

lemma weights_nonneg_append:
  "weights_nonneg (xs @ ys) \<longleftrightarrow> weights_nonneg xs \<and> weights_nonneg ys"
  by (auto simp add: weights_nonneg_def)

lemma contributions_nonneg: "weights_nonneg es \<Longrightarrow> 0 \<le> contributions es v"
proof (induction es)
  case Nil
  then show ?case by simp
next
  case (Cons e es)
  obtain vox_z vox_y vox_x w where e: "e = (vox_z, vox_y, vox_x, w)"
    by (cases e) auto
  from Cons.prems have "0 \<le> w" "weights_nonneg es"
    by (simp_all add: weights_nonneg_def e)
  with Cons.IH show ?case by (simp add: e)
qed

lemma falloff_weight_nonneg:
  fixes intensity distance :: real
  assumes "0 \<le> intensity" "0 \<le> distance"
  shows "0 \<le> intensity * (1 / (1 + distance * 0.2))"
proof -
  have "0 < 1 + distance * 0.2" using assms(2) by simp
  then show ?thesis using assms(1) by simp
qed

lemma linalg_norm_nonneg: "0 \<le> linalg_norm v"
  by (cases v) simp

lemma traverse_body_weights:
  assumes "0 \<le> intensity" "weights_nonneg (fst state)"
  shows "weights_nonneg (fst (traverse_body camera_pos ray_dir grid_size voxel_len step_size
            intensity state i))"
proof -
  obtain voxel_list visited where s: "state = (voxel_list, visited)" by (cases state)
  show ?thesis
    using assms(2) falloff_weight_nonneg [OF assms(1) linalg_norm_nonneg]
    unfolding s traverse_body_def Let_def
    by (simp add: weights_nonneg_append weights_nonneg_def split: if_splits)
qed

lemma traverse_ray_3d_weights:
  assumes "0 \<le> intensity"
    and "traverse_ray_3d camera_pos ray_dir grid_size voxel_len max_distance intensity = Inr entries"
  shows "weights_nonneg entries"
proof -
  let ?body = "traverse_body camera_pos ray_dir grid_size voxel_len (voxel_len * 0.5) intensity"
  let ?steps = "[0..<nat (py_int (max_distance / (voxel_len * 0.5)))]"
  from assms(2) have e: "entries = fst (foldl ?body ([], {}) ?steps)"
    by (auto simp add: traverse_ray_3d_def Let_def split: if_splits)
  have "weights_nonneg (fst (foldl ?body ([], {}) ?steps))"
    by (rule foldl_invariant [where P = "\<lambda>s. weights_nonneg (fst s)"])
      (simp_all add: weights_nonneg_def [of "[]"] traverse_body_weights [OF assms(1)])
  then show ?thesis unfolding e .
qed

lemma camera_entries_weights:
  assumes "\<And>ray_dir intensity es. 0 \<le> intensity \<Longrightarrow> traverse ray_dir intensity = Inr es
      \<Longrightarrow> weights_nonneg es"
  shows "camera_entries traverse calib img coords = Inr entries \<Longrightarrow> weights_nonneg entries"
proof (induction coords arbitrary: entries)
  case Nil
  then show ?case by (simp add: weights_nonneg_def)
next
  case (Cons c coords)
  obtain py px where c: "c = (py, px)" by (cases c)
  let ?i = "real (unat (img ! py ! px)) / 255"
  show ?case
  proof (cases "?i < 0.3")
    case True
    with Cons.prems have "camera_entries traverse calib img coords = Inr entries"
      unfolding c camera_entries.simps by (simp only: if_True)
    then show ?thesis by (rule Cons.IH)
  next
    case False
    with Cons.prems obtain ray others where
      ray: "traverse (pixel_ray calib px py) ?i = Inr ray" and
      others: "camera_entries traverse calib img coords = Inr others" and
      e: "entries = ray @ others"
      unfolding c camera_entries.simps
      by (simp only: if_False split: sum.splits) auto
    have "0 \<le> ?i"
      by (rule divide_nonneg_nonneg) (rule of_nat_0_le_iff, simp)
    then have "weights_nonneg ray" using ray by (rule assms)
    moreover have "weights_nonneg others" using others by (rule Cons.IH)
    ultimately show ?thesis
      by (simp add: e weights_nonneg_append)
  qed
qed

lemma ray_entries_weights:
  "ray_entries camera_pos calib img prev = Inr entries \<Longrightarrow> weights_nonneg entries"
  unfolding ray_entries_def
  by (erule camera_entries_weights [rotated]) (rule traverse_ray_3d_weights)

lemma accumulate_ray_nonneg:
  assumes "grid_nonneg vg" "weights_nonneg es"
  shows "grid_nonneg (fst (accumulate_ray cam (vg, ch) es))"
  using assms contributions_nonneg [OF assms(2)]
  by (simp add: accumulate_ray_eq grid_nonneg_def)

lemma boost_cells_nonneg:
  assumes "grid_nonneg vg" "0 \<le> boost"
  shows "grid_nonneg (boost_cells ch boost vg)"
  using assms by (simp add: grid_nonneg_def boost_cells_def)

lemma decay_grid_nonneg:
  assumes "grid_nonneg vg" "0 \<le> decay"
  shows "grid_nonneg (decay_grid decay vg)"
  using assms by (simp add: grid_nonneg_def decay_grid_def)

lemma frame_cycle_nonneg:
  assumes "grid_nonneg (voxel_grid st)" "frame_cycle calib st img_left img_right = Inr st'"
  shows "grid_nonneg (voxel_grid st')"
proof -
  obtain left right where
    l: "ray_entries CAMERA_LEFT_POS calib img_left (prev_left st) = Inr left" and
    r: "ray_entries CAMERA_RIGHT_POS calib img_right (prev_right st) = Inr right" and
    st': "st' = \<lparr> voxel_grid = decay_grid 0.99 (boost_cells
                 (snd (accumulate_ray 1 (accumulate_ray 0 (voxel_grid st, \<lambda>_. False) left) right)) 1.5
                 (fst (accumulate_ray 1 (accumulate_ray 0 (voxel_grid st, \<lambda>_. False) left) right))),
               camera_hits = snd (accumulate_ray 1 (accumulate_ray 0 (voxel_grid st, \<lambda>_. False) left) right),
               prev_left = img_left, prev_right = img_right \<rparr>"
    using frame_cycle_eq [OF assms(2)] by blast
  have "weights_nonneg (left @ right)"
    using ray_entries_weights [OF l] ray_entries_weights [OF r]
    by (simp add: weights_nonneg_append)
  then have "grid_nonneg (fst (accumulate_ray 1 (voxel_grid st, \<lambda>_. False) (left @ right)))"
    by (rule accumulate_ray_nonneg [OF assms(1)])
  then have "grid_nonneg (fst (accumulate_ray 1 (accumulate_ray 0 (voxel_grid st, \<lambda>_. False) left) right))"
    by (simp add: accumulate_ray_eq contributions_append add.assoc)
  then have "grid_nonneg (decay_grid 0.99 (boost_cells
                 (snd (accumulate_ray 1 (accumulate_ray 0 (voxel_grid st, \<lambda>_. False) left) right)) 1.5
                 (fst (accumulate_ray 1 (accumulate_ray 0 (voxel_grid st, \<lambda>_. False) left) right))))"
    by (intro decay_grid_nonneg boost_cells_nonneg) simp_all
  then show ?thesis by (simp add: st')
qed

lemma main_loop_nonneg:
  "grid_nonneg (voxel_grid st) \<Longrightarrow> main_loop calib st frames = Inr final
     \<Longrightarrow> grid_nonneg (voxel_grid final)"
proof (induction calib st frames rule: main_loop.induct)
  case (1 calib st)
  then show ?case by simp
next
  case (2 calib st frames)
  then show ?case by simp
next
  case (3 calib st img_left img_right frames)
  from "3.prems"(2) obtain st' where
    c: "frame_cycle calib st img_left img_right = Inr st'" and
    m: "main_loop calib st' frames = Inr final"
    by (auto split: sum.splits)
  have "grid_nonneg (voxel_grid st')"
    using "3.prems"(1) c by (rule frame_cycle_nonneg)
  then show ?case
    using "3.IH" [OF c] m by blast
qed

lemma accumulate_voxel_nonneg:
  assumes "grid_nonneg (voxels self)" "0 \<le> confidence"
  shows "grid_nonneg (voxels (fst (accumulate_voxel self world_pos confidence)))"
  using assms
  by (auto simp add: accumulate_voxel_def grid_nonneg_def split: option.splits)

text \<open>
  Claim C8. The all-zero grid has no negative cell, and no operation of the frame cycle
  makes one: neither the accumulation of a non-negative confidence by
  \<open>accumulate_voxel\<close>, nor the accumulation of the voxels of a ray of
  non-negative intensity, nor the boost, nor the decay, nor a whole frame cycle. So
  every grid of a session that starts from the all-zero grid has non-negative cells
  only. The voxel size and the focal lengths of the calibration are taken to be
  different from zero.
\<close>

theorem grid_stays_nonneg:
  "grid_nonneg (voxel_grid (initial_state first_left first_right)) \<and>
   (grid_nonneg (voxels self) \<and> 0 \<le> confidence \<and> voxel_size self \<noteq> 0 \<longrightarrow>
      grid_nonneg (voxels (fst (accumulate_voxel self world_pos confidence)))) \<and>
   (grid_nonneg vg \<and> 0 \<le> intensity \<and>
    traverse_ray_3d camera_pos ray_dir grid_size voxel_len max_distance intensity = Inr voxels_on_ray
      \<longrightarrow> grid_nonneg (fst (accumulate_ray cam (vg, ch) voxels_on_ray))) \<and>
   (grid_nonneg vg \<longrightarrow> grid_nonneg (boost_cells ch 1.5 vg)) \<and>
   (grid_nonneg vg \<longrightarrow> grid_nonneg (decay_grid 0.99 vg)) \<and>
   (grid_nonneg (voxel_grid st) \<and> calibration_ok calib \<and>
    frame_cycle calib st img_left img_right = Inr st'
      \<longrightarrow> grid_nonneg (voxel_grid st')) \<and>
   (calibration_ok calib \<and>
    main_loop calib (initial_state first_left first_right) frames = Inr final
      \<longrightarrow> grid_nonneg (voxel_grid final))"
proof -
  have zero: "grid_nonneg (voxel_grid (initial_state first_left first_right))"
    by (simp add: grid_nonneg_def initial_state_def)
  have "calibration_ok calib \<and>
      main_loop calib (initial_state first_left first_right) frames = Inr final
      \<longrightarrow> grid_nonneg (voxel_grid final)"
    using main_loop_nonneg [OF zero] by blast
  moreover have "grid_nonneg vg \<and> 0 \<le> intensity \<and>
    traverse_ray_3d camera_pos ray_dir grid_size voxel_len max_distance intensity = Inr voxels_on_ray
      \<longrightarrow> grid_nonneg (fst (accumulate_ray cam (vg, ch) voxels_on_ray))"
    using accumulate_ray_nonneg traverse_ray_3d_weights by blast
  moreover have "grid_nonneg vg \<longrightarrow> grid_nonneg (boost_cells ch 1.5 vg)"
    using boost_cells_nonneg [of vg "1.5" ch] by simp
  moreover have "grid_nonneg vg \<longrightarrow> grid_nonneg (decay_grid 0.99 vg)"
    using decay_grid_nonneg [of vg "0.99"] by simp
  ultimately show ?thesis
    using zero accumulate_voxel_nonneg frame_cycle_nonneg by blast
qed

text \<open>
  A session of two frame pairs with a failed capture between them, and the single
  operations on the grid whose cells all hold 2.
\<close>

theorem grid_stays_nonneg_witness:
  "grid_nonneg (voxels init_reconstructor) \<and> voxel_size init_reconstructor \<noteq> 0 \<and>
   calibration_ok None \<and>
   grid_nonneg (voxels (fst (accumulate_voxel init_reconstructor (0, 0, 0.5) 1))) \<and>
   grid_nonneg (voxel_grid warm_state) \<and>
   traverse_ray_3d (0, 0, 0) (0, 1, 0) 64 0.01 0.005 1 = Inr [(0, 0, 25, 1)] \<and>
   grid_nonneg (fst (accumulate_ray 0 (voxel_grid warm_state, camera_hits warm_state)
      [(0, 0, 25, 1)])) \<and>
   grid_nonneg (boost_cells (camera_hits warm_state) 1.5 (voxel_grid warm_state)) \<and>
   grid_nonneg (decay_grid 0.99 (voxel_grid warm_state)) \<and>
   (\<exists>st'. frame_cycle None warm_state [[255]] [[255]] = Inr st' \<and>
      grid_nonneg (voxel_grid st')) \<and>
   (\<exists>final. main_loop None (initial_state [[0]] [[0]])
        [Some ([[255]], [[255]]), None, Some ([[90]], [[255]])] = Inr final \<and>
      grid_nonneg (voxel_grid final))"
proof -
  note inst = grid_stays_nonneg
  have init: "grid_nonneg (voxels init_reconstructor)" "voxel_size init_reconstructor \<noteq> 0"
    by (simp_all add: grid_nonneg_def init_reconstructor_def)
  have ok: "calibration_ok None"
    by (simp add: calibration_ok_def)
  have warm: "grid_nonneg (voxel_grid warm_state)"
    by (simp add: grid_nonneg_def warm_state_def)
  have ray: "traverse_ray_3d (0, 0, 0) (0, 1, 0) 64 0.01 0.005 1 = Inr [(0, 0, 25, 1)]"
    by (simp add: traverse_ray_3d_def traverse_body_def py_int_def Let_def
        vec_x_def vec_y_def vec_z_def)
  have a: "grid_nonneg (voxels (fst (accumulate_voxel init_reconstructor (0, 0, 0.5) 1)))"
    using inst [of _ _ init_reconstructor 1 "(0, 0, 0.5)"] init by simp
  have b: "grid_nonneg (fst (accumulate_ray 0 (voxel_grid warm_state, camera_hits warm_state)
      [(0, 0, 25, 1)]))"
    using inst [of _ _ _ _ _ "voxel_grid warm_state" 1 "(0, 0, 0)" "(0, 1, 0)" 64 "0.01" "0.005"
        "[(0, 0, 25, 1)]" 0 "camera_hits warm_state"] warm ray
    by simp
  have c: "grid_nonneg (boost_cells (camera_hits warm_state) 1.5 (voxel_grid warm_state))"
      "grid_nonneg (decay_grid 0.99 (voxel_grid warm_state))"
    using inst [of _ _ _ _ _ "voxel_grid warm_state" _ _ _ _ _ _ _ _ "camera_hits warm_state"]
      warm by simp_all
  have shapes: "map length [[255 :: 8 word]] = map length (prev_left warm_state)"
      "map length [[255 :: 8 word]] = map length (prev_right warm_state)"
    by (simp_all add: warm_state_def)
  obtain st' where run: "frame_cycle None warm_state [[255]] [[255]] = Inr st'"
    using frame_cycle_returns [OF shapes] by blast
  have d: "grid_nonneg (voxel_grid st')"
    using inst [of _ _ _ _ _ _ _ _ _ _ _ _ _ _ _ warm_state None "[[255]]" "[[255]]" st']
      warm run ok by simp
  let ?s0 = "initial_state [[0]] [[0]]"
  have "map length [[255 :: 8 word]] = map length (prev_left ?s0)"
      "map length [[255 :: 8 word]] = map length (prev_right ?s0)"
    by (simp_all add: initial_state_def)
  then obtain s1 where
    s1: "frame_cycle None ?s0 [[255]] [[255]] = Inr s1"
      "prev_left s1 = [[255]]" "prev_right s1 = [[255]]"
    using frame_cycle_returns' by blast
  have "map length [[90 :: 8 word]] = map length (prev_left s1)"
      "map length [[255 :: 8 word]] = map length (prev_right s1)"
    by (simp_all add: s1)
  then obtain s2 where s2: "frame_cycle None s1 [[90]] [[255]] = Inr s2"
    using frame_cycle_returns by blast
  have loop: "main_loop None ?s0 [Some ([[255]], [[255]]), None, Some ([[90]], [[255]])]
      = Inr s2"
    by (simp add: s1 s2)
  have e: "grid_nonneg (voxel_grid s2)"
    using inst [of "[[0]]" "[[0]]" _ _ _ _ _ _ _ _ _ _ _ _ _ _ None _ _ _
        "[Some ([[255]], [[255]]), None, Some ([[90]], [[255]])]" s2] loop ok
    by simp
  show ?thesis
    using init ok a warm ray b c run d loop e by blast
qed


end
